theory Spec2Isabelle
  imports Complex_Main "HOL-Library.Product_Lexorder"
begin

chapter \<open>byenatOS: the personalization pipeline and its governed write path\<close>

text \<open>
  A shallow embedding of the parts of the repository that decide the properties below:
  \<^item> \<^verbatim>\<open>Kernel/Core/HiNATAProcessor.py\<close>: validator, enrichment pipeline, influence weight;
  \<^item> \<^verbatim>\<open>Kernel/Core/StorageEngine.py\<close>: tiered store, retrieval by id, relevance score;
  \<^item> \<^verbatim>\<open>Kernel/Core/PSPEngine.py\<close>: the intent-to-profile matcher;
  \<^item> \<^verbatim>\<open>Security/WritePermissionManager.py\<close>: risk assessment and authorization;
  \<^item> \<^verbatim>\<open>InterfaceAbstraction/APIs/HiNATAWriteAPI.py\<close>: the write executor.

  Conventions of the embedding.
  \<^item> Python floats are read as real numbers, with the overflow of a power written out;
    Python ints as \<open>int\<close>.
  \<^item> A Python exception is the \<open>Inl\<close> branch of a sum; \<open>try/except\<close> is a case split on it.
  \<^item> Mutable stores (Redis keys, PostgreSQL tables, the in-process cache) are fields of an
    explicit state that every operation takes and returns.
  \<^item> A timestamp text is represented by what \<^verbatim>\<open>datetime.fromisoformat\<close> makes of it
    (type \<open>tstamp\<close>); instants are seconds since the epoch.
  \<^item> The database is reached through \<^verbatim>\<open>asyncpg\<close> pools made by \<^verbatim>\<open>asyncpg.create_pool\<close> with
    nothing else configured, so with the driver's own codecs. The argument for a
    \<^verbatim>\<open>TIMESTAMP WITH TIME ZONE\<close> column has to be a \<^verbatim>\<open>datetime\<close> and the one for a
    \<^verbatim>\<open>BIGINT\<close> column an \<^verbatim>\<open>int\<close>: a string is refused with \<^verbatim>\<open>DataError\<close> before the
    statement is sent. A fetched row holds a \<^verbatim>\<open>datetime\<close> for a timestamp column, \<^verbatim>\<open>None\<close>
    for a \<^verbatim>\<open>NULL\<close>, and for a JSONB column the JSON text, which is kept here as the JSON
    value it is the text of.
  \<^item> Strings are ASCII texts.
  \<^item> Values are typed as the source annotates them; where the source admits any JSON value
    (the \<^verbatim>\<open>tag\<close> of a submitted record, the values of a patch, the tags of a bulk
    operation) the model has a JSON value.
\<close>

section \<open>Part I: the program\<close>

subsection \<open>Values shared by all components\<close>

text \<open>
  The entries of the validator's error list and of the bulk safety check's error list, with
  the values their messages are formatted from.
\<close>

datatype validation_error =
    MissingRequiredField string
  | TagMustBeList
  | InvalidAccessLevel string
  | InvalidTimestampFormat
  | HighlightTooLong
  | NoteTooLong

datatype safety_error =
    MustSpecifyTargetFilter
  | BatchSizeTooLarge
  | WouldAffectTooManyRecords int

text \<open>
  Exceptions, with the message they carry. \<open>ValidationFailed errors\<close> is
  \<^verbatim>\<open>ValueError(f"Validation failed: {errors}")\<close>, \<open>BulkSafetyCheckFailed errors\<close> is
  \<^verbatim>\<open>ValueError(f"Bulk operation safety check failed: {errors}")\<close>, and \<open>HTTPException code
  detail ids\<close> has the ids formatted into its detail.
\<close>

datatype exn =
    ValueError string
  | TypeError string
  | KeyError string
  | AttributeError string
  | HTTPException nat string "string list"
  | OverflowError string
  | DbError string
  | DataError string
  | ValidationFailed "validation_error list"
  | BulkSafetyCheckFailed "safety_error list"

text \<open>
  A timestamp text: \<open>Aware t\<close> parses to an instant with a UTC offset, \<open>Naive t\<close> parses but
  carries no offset (subtracting it from an aware \<^verbatim>\<open>datetime.now(timezone.utc)\<close> raises
  \<^verbatim>\<open>TypeError\<close>), \<open>Malformed\<close> is rejected by \<^verbatim>\<open>fromisoformat\<close> with \<^verbatim>\<open>ValueError\<close>.
\<close>

datatype tstamp = Aware int | Naive int | Malformed

text \<open>\<^verbatim>\<open>(datetime.now(timezone.utc) - created_time).days\<close>: whole days, rounded down.\<close>

definition days_between :: "int \<Rightarrow> tstamp \<Rightarrow> exn + int" where
  "days_between now ts =
     (case ts of
        Aware t \<Rightarrow> Inr ((now - t) div 86400)
      | Naive t \<Rightarrow> Inl (TypeError ''offset-naive and offset-aware datetimes'')
      | Malformed \<Rightarrow> Inl (ValueError ''Invalid isoformat string''))"

text \<open>
  A value that is either a timestamp text or a \<^verbatim>\<open>datetime\<close> object with a UTC offset (what
  a fetched row holds for a timestamp column). \<^verbatim>\<open>x.replace('Z', '+00:00')\<close> is a string
  operation: on a \<^verbatim>\<open>datetime\<close> it raises \<^verbatim>\<open>TypeError\<close>.
\<close>

datatype pytime = TimeText tstamp | DateTime int

definition replace_z :: "pytime \<Rightarrow> exn + tstamp" where
  "replace_z x =
     (case x of
        TimeText ts \<Rightarrow> Inr ts
      | DateTime t \<Rightarrow> Inl (TypeError ''str object cannot be interpreted as an integer''))"

text \<open>
  The values of request payloads and of the dictionaries made from rows. \<open>JStr\<close> is a string
  of a request or of a text column; \<open>JTime\<close> is a string holding a timestamp text that the
  code itself wrote; \<open>JsonText v\<close> is a string holding the JSON text of \<open>v\<close>; \<open>JDate\<close> is a
  \<^verbatim>\<open>datetime\<close> object, which no JSON payload can hold.
\<close>

datatype jvalue =
    JNull | JBool bool | JNum real | JStr string | JTime tstamp | JArr "jvalue list"
  | JsonText jvalue | JDate int

subsubsection \<open>String helpers: \<^verbatim>\<open>str.strip\<close> and \<^verbatim>\<open>str.lower\<close> on ASCII\<close>

definition isspace :: "char \<Rightarrow> bool" where
  "isspace c = (of_char c \<in> {9, 10, 11, 12, 13, 28, 29, 30, 31, 32 :: nat})"

definition strip :: "string \<Rightarrow> string" where
  "strip s = rev (dropWhile isspace (rev (dropWhile isspace s)))"

definition lower_char :: "char \<Rightarrow> char" where
  "lower_char c =
     (if 65 \<le> (of_char c :: nat) \<and> (of_char c :: nat) \<le> 90
      then char_of (of_char c + 32 :: nat) else c)"

definition lower :: "string \<Rightarrow> string" where
  "lower s = map lower_char s"

subsection \<open>Influence weight (\<^verbatim>\<open>HiNATAProcessor._calculate_psp_influence_weight\<close>)\<close>

definition calculate_psp_influence_weight :: "real \<Rightarrow> real \<Rightarrow> real" where
  "calculate_psp_influence_weight quality_score attention_weight =
     (let base_influence = quality_score * 0.6 + attention_weight * 0.4;
          min_influence = 0.05;
          max_influence = 1.0;
          final_influence = min_influence + (max_influence - min_influence) * base_influence
      in final_influence)"

text \<open>The clamp of invariant (I5), as the specification writes it.\<close>

definition spec_clamp :: "real \<Rightarrow> real \<Rightarrow> real \<Rightarrow> real" where
  "spec_clamp lo hi x = max lo (min hi x)"

definition spec_influence :: "real \<Rightarrow> real \<Rightarrow> real" where
  "spec_influence quality attention =
     spec_clamp 0.05 1.0 (0.05 + 0.95 * (0.6 * quality + 0.4 * attention))"

subsection \<open>Records and rows\<close>

text \<open>
  \<^verbatim>\<open>HiNATAData\<close> (HiNATAProcessor.py) and the \<^verbatim>\<open>hinata_data\<close> dictionaries of the storage
  engine. Keys that the code reads with \<^verbatim>\<open>.get(key, default)\<close> are optional: \<open>None\<close> is
  an absent key.
\<close>

record semantic =
  main_topics :: "string list"
  sentiment :: string
  complexity_level :: string
  key_concepts :: "string list"

record metadata =
  processed_at :: int
  processor_version :: string
  enhancements_applied :: "string list"

record hinata =
  h_id :: string
  h_timestamp :: tstamp
  h_source :: string
  h_highlight :: string
  h_note :: string
  h_address :: string
  h_tag :: "string list"
  h_access :: string
  h_raw_data :: "(string \<times> jvalue) list"
  h_enhanced_tags :: "string list option"
  h_recommended_highlights :: "string list option"
  h_semantic_analysis :: "semantic option"
  h_attention_weight :: "real option"
  h_quality_score :: "real option"
  h_psp_influence_weight :: "real option"
  h_embedding_vector :: "real list option"
  h_processing_metadata :: "metadata option"

text \<open>
  A row of the PostgreSQL table \<^verbatim>\<open>hinata_data\<close> (created in StorageEngine.py, extended with
  \<^verbatim>\<open>is_deleted\<close> and \<^verbatim>\<open>deleted_at\<close> in HiNATAWriteAPI.py), as it is fetched. The column
  \<^verbatim>\<open>timestamp\<close> is \<^verbatim>\<open>TIMESTAMP WITH TIME ZONE NOT NULL\<close>: an instant. The JSONB column
  \<^verbatim>\<open>tags\<close> holds whatever \<^verbatim>\<open>json.dumps\<close> was given. The three \<^verbatim>\<open>REAL\<close> columns may be
  \<^verbatim>\<open>NULL\<close>.
\<close>

record row =
  c_id :: string
  c_user_id :: string
  c_timestamp :: int
  c_source :: string
  c_highlight :: string
  c_note :: string
  c_address :: string
  c_tags :: jvalue
  c_access_level :: string
  c_enhanced_tags :: "string list"
  c_quality_score :: "real option"
  c_attention_weight :: "real option"
  c_psp_influence_weight :: "real option"
  c_processing_metadata :: "metadata option"
  c_is_deleted :: bool
  c_deleted_at :: "int option"

text \<open>What a lookup by id hands back: a document of the hot or cold tier, or a warm row.\<close>

datatype stored = Doc hinata | Row row

text \<open>
  \<^verbatim>\<open>hinata_data.get(key, 0)\<close> for the three weights: the number, or Python's \<^verbatim>\<open>None\<close>. A
  document without the key answers the default 0. A dictionary made from a row has every
  column as a key, so the default is never used there and a \<^verbatim>\<open>NULL\<close> answers \<^verbatim>\<open>None\<close>.
\<close>

definition opt0 :: "real option \<Rightarrow> real" where
  "opt0 x = (case x of None \<Rightarrow> 0 | Some v \<Rightarrow> v)"

definition get_psp_influence_weight :: "stored \<Rightarrow> real option" where
  "get_psp_influence_weight d =
     (case d of Doc h \<Rightarrow> Some (opt0 (h_psp_influence_weight h))
              | Row r \<Rightarrow> c_psp_influence_weight r)"

definition get_attention_weight :: "stored \<Rightarrow> real option" where
  "get_attention_weight d =
     (case d of Doc h \<Rightarrow> Some (opt0 (h_attention_weight h))
              | Row r \<Rightarrow> c_attention_weight r)"

definition get_quality_score :: "stored \<Rightarrow> real option" where
  "get_quality_score d =
     (case d of Doc h \<Rightarrow> Some (opt0 (h_quality_score h))
              | Row r \<Rightarrow> c_quality_score r)"

text \<open>\<^verbatim>\<open>hinata_data.get('timestamp', '')\<close>: a text in a document, a \<^verbatim>\<open>datetime\<close> in a row.\<close>

definition get_timestamp :: "stored \<Rightarrow> pytime" where
  "get_timestamp d = (case d of Doc h \<Rightarrow> TimeText (h_timestamp h) | Row r \<Rightarrow> DateTime (c_timestamp r))"

definition get_id :: "stored \<Rightarrow> string" where
  "get_id d = (case d of Doc h \<Rightarrow> h_id h | Row r \<Rightarrow> c_id r)"

subsection \<open>Relevance score (\<^verbatim>\<open>StorageEngine._calculate_relevance_score\<close>)\<close>

text \<open>
  \<^verbatim>\<open>x ** n\<close> for a float \<open>x\<close> and an int \<open>n\<close>: a result beyond the range of a double (the
  doubles end below \<open>2 ^ 1024\<close>) is \<^verbatim>\<open>OverflowError\<close>; a result too small for a double is 0
  in Python and at most \<open>2 ^ - 1074\<close> here.
\<close>

definition float_pow :: "real \<Rightarrow> int \<Rightarrow> exn + real" where
  "float_pow x n =
     (if 2 ^ 1024 \<le> power_int x n then Inl (OverflowError ''Numerical result out of range'')
      else Inr (power_int x n))"

text \<open>
  \<^verbatim>\<open>_calculate_recency_score\<close>: any exception of the \<^verbatim>\<open>replace\<close>, of the parse, of the
  subtraction or of the power is caught by the bare \<^verbatim>\<open>except\<close> and yields 0.5.
\<close>

definition calculate_recency_score :: "int \<Rightarrow> pytime \<Rightarrow> real" where
  "calculate_recency_score now timestamp =
     (case replace_z timestamp of
        Inl e \<Rightarrow> 0.5
      | Inr created_text \<Rightarrow>
          (case days_between now created_text of
             Inl e \<Rightarrow> 0.5
           | Inr days_ago \<Rightarrow>
               (case float_pow 0.95 days_ago of
                  Inl e \<Rightarrow> 0.5
                | Inr p \<Rightarrow> max 0.1 (1.0 * p))))"

text \<open>\<^verbatim>\<open>w * c\<close> for what \<^verbatim>\<open>.get\<close> answered: \<^verbatim>\<open>None\<close> cannot be multiplied.\<close>

definition times :: "real option \<Rightarrow> real \<Rightarrow> exn + real" where
  "times w c =
     (case w of
        None \<Rightarrow> Inl (TypeError ''unsupported operand type(s) for *: NoneType and float'')
      | Some v \<Rightarrow> Inr (v * c))"

text \<open>
  The five entries of the \<^verbatim>\<open>factors\<close> dictionary, evaluated in the order they are written
  and summed by \<^verbatim>\<open>sum(factors.values())\<close>. The entry \<^verbatim>\<open>'source_preference'\<close> is the literal
  0.1. No exception is caught here.
\<close>

definition calculate_relevance_score :: "int \<Rightarrow> stored \<Rightarrow> exn + real" where
  "calculate_relevance_score now hinata_data =
     (case times (get_psp_influence_weight hinata_data) 0.3 of
        Inl e \<Rightarrow> Inl e
      | Inr f1 \<Rightarrow>
          (case times (get_attention_weight hinata_data) 0.25 of
             Inl e \<Rightarrow> Inl e
           | Inr f2 \<Rightarrow>
               (case times (get_quality_score hinata_data) 0.2 of
                  Inl e \<Rightarrow> Inl e
                | Inr f3 \<Rightarrow>
                    Inr (0 + f1 + f2 + f3
                           + calculate_recency_score now (get_timestamp hinata_data) * 0.15
                           + 0.1))))"

text \<open>The fusion formula as the specification writes it.\<close>

definition spec_recency :: "int \<Rightarrow> real" where
  "spec_recency age_days = max 0.1 (power_int 0.95 age_days)"

definition spec_relevance :: "real \<Rightarrow> real \<Rightarrow> real \<Rightarrow> real \<Rightarrow> real \<Rightarrow> real" where
  "spec_relevance influence attention quality recency source_pref =
     0.30 * influence + 0.25 * attention + 0.20 * quality + 0.15 * recency + 0.10 * source_pref"

text \<open>The specification's per-user source preference: a lookup with default 0.5.\<close>

definition spec_source_pref :: "(string \<rightharpoonup> real) \<Rightarrow> string \<Rightarrow> real" where
  "spec_source_pref prefs user_id = (case prefs user_id of None \<Rightarrow> 0.5 | Some p \<Rightarrow> p)"

subsection \<open>Risk assessment and authorization (WritePermissionManager.py)\<close>

datatype PermissionLevel = NONE | READ_ONLY | WRITE_LIMITED | WRITE_FULL | ADMIN

datatype OperationRisk = LOW | MEDIUM | HIGH | CRITICAL

record UserPermissionProfile =
  profile_user_id :: string
  permission_level :: PermissionLevel
  allowed_operations :: "string set"
  daily_operation_limit :: int
  batch_size_limit :: int
  require_2fa :: bool
  valid_from :: pytime
  valid_until :: "pytime option"
  allowed_sources :: "string set option"
  forbidden_operations :: "string set option"

text \<open>The keys of \<^verbatim>\<open>operation_data\<close> that authorization reads, each with \<^verbatim>\<open>.get\<close>.\<close>

record operation_data =
  estimated_affected_count :: "int option"
  soft_delete :: "bool option"
  target_sources :: "string list option"

definition operation_risks :: "string \<rightharpoonup> real" where
  "operation_risks = map_of
     [(''create'', 0.1), (''update'', 0.3), (''delete'', 0.8), (''bulk_tag'', 0.4),
      (''bulk_retag'', 0.5), (''batch_update'', 0.6), (''merge'', 0.7), (''split'', 0.6)]"

definition affected_count_of :: "operation_data \<Rightarrow> int" where
  "affected_count_of od = (case estimated_affected_count od of None \<Rightarrow> 1 | Some n \<Rightarrow> n)"

text \<open>\<^verbatim>\<open>current_time.hour\<close> of the UTC wall clock.\<close>

definition hour_of :: "int \<Rightarrow> int" where
  "hour_of now = (now div 3600) mod 24"

text \<open>
  \<^verbatim>\<open>RiskAssessment.assess_operation_risk\<close>. The score and the flags are threaded through the
  six numbered steps as in the source; the result is \<^verbatim>\<open>(risk_level, min(risk_score, 1.0),
  risk_flags)\<close>. The summands are decimal constants and their sum is exact here. In floating
  point a sum that is exactly a threshold here can stay just below it (0.7 + 0.2 + 0.1 for
  a \<^verbatim>\<open>merge\<close>); the score of a delete with \<^verbatim>\<open>soft_delete = False\<close> is at least 0.8 + 0.3,
  a tenth above the highest threshold.
\<close>

definition risk_step_batch :: "int \<Rightarrow> real \<times> string list \<Rightarrow> real \<times> string list" where
  "risk_step_batch affected_count sf =
     (if affected_count > 1000 then (fst sf + 0.8, snd sf @ [''large_batch_operation''])
      else if affected_count > 100 then (fst sf + 0.5, snd sf @ [''medium_batch_operation''])
      else if affected_count > 10 then (fst sf + 0.2, snd sf @ [''small_batch_operation''])
      else sf)"

definition risk_step_delete ::
  "string \<Rightarrow> operation_data \<Rightarrow> int \<Rightarrow> real \<times> string list \<Rightarrow> real \<times> string list" where
  "risk_step_delete operation_type od affected_count sf =
     (if operation_type = ''delete'' then
        (let sf1 = (if \<not> (case soft_delete od of None \<Rightarrow> True | Some b \<Rightarrow> b)
                    then (fst sf + 0.3, snd sf @ [''hard_delete'']) else sf)
         in if affected_count > 50 then (fst sf1 + 0.4, snd sf1 @ [''bulk_delete'']) else sf1)
      else sf)"

definition risk_step_hours :: "int \<Rightarrow> real \<times> string list \<Rightarrow> real \<times> string list" where
  "risk_step_hours now sf =
     (if hour_of now < 6 \<or> hour_of now > 22
      then (fst sf + 0.1, snd sf @ [''off_hours_operation'']) else sf)"

definition risk_step_user ::
  "string \<Rightarrow> UserPermissionProfile \<Rightarrow> real \<times> string list \<Rightarrow> real \<times> string list" where
  "risk_step_user operation_type user_profile sf =
     (if permission_level user_profile = WRITE_LIMITED
         \<and> operation_type \<in> {''batch_update'', ''bulk_tag'', ''bulk_retag''}
      then (fst sf + 0.3, snd sf @ [''limited_user_bulk_operation'']) else sf)"

definition risk_step_sources ::
  "operation_data \<Rightarrow> UserPermissionProfile \<Rightarrow> real \<times> string list \<Rightarrow> real \<times> string list" where
  "risk_step_sources od user_profile sf =
     (case (target_sources od, allowed_sources user_profile) of
        (Some ts, Some allowed) \<Rightarrow>
          (if ts \<noteq> [] \<and> allowed \<noteq> {} \<and> set ts - allowed \<noteq> {}
           then (fst sf + 0.5, snd sf @ [''unauthorized_source_access'']) else sf)
      | _ \<Rightarrow> sf)"

definition risk_level_of :: "real \<Rightarrow> OperationRisk" where
  "risk_level_of risk_score =
     (if risk_score \<ge> 1.0 then CRITICAL
      else if risk_score \<ge> 0.7 then HIGH
      else if risk_score \<ge> 0.4 then MEDIUM
      else LOW)"

definition assess_operation_risk ::
  "int \<Rightarrow> string \<Rightarrow> operation_data \<Rightarrow> UserPermissionProfile
     \<Rightarrow> OperationRisk \<times> real \<times> string list" where
  "assess_operation_risk now operation_type od user_profile =
     (let base_risk = (case operation_risks operation_type of None \<Rightarrow> 0.5 | Some r \<Rightarrow> r);
          affected_count = affected_count_of od;
          sf = risk_step_sources od user_profile
                 (risk_step_user operation_type user_profile
                   (risk_step_hours now
                     (risk_step_delete operation_type od affected_count
                       (risk_step_batch affected_count (0.0 + base_risk, [])))));
          risk_score = fst sf
      in (risk_level_of risk_score, min risk_score 1.0, snd sf))"

text \<open>
  The stores authorization reads: permission profiles, the audit log (user id and request
  instant of each entry), and the Redis keys \<^verbatim>\<open>2fa_verified:<session_id>\<close>. The profile of a
  user is the one cached under \<^verbatim>\<open>user_permissions:<user_id>\<close>, a JSON document whose validity
  bounds are texts, or else the one made from the user's active row of
  \<^verbatim>\<open>user_write_permissions\<close>, whose validity bounds are \<^verbatim>\<open>datetime\<close> objects.
\<close>

record perm_store =
  profiles :: "string \<rightharpoonup> UserPermissionProfile"
  operation_audit_logs :: "(string \<times> int) list"
  twofa_verified :: "string \<rightharpoonup> string"

text \<open>
  \<^verbatim>\<open>create_default_permission_profile\<close> builds the default profile and inserts it; the
  seventh argument of the \<^verbatim>\<open>INSERT\<close> is its \<^verbatim>\<open>valid_from\<close>, a string, for a
  \<^verbatim>\<open>TIMESTAMP WITH TIME ZONE\<close> column: the driver refuses it, and the exception leaves the
  function.
\<close>

definition default_permission_profile :: "string \<Rightarrow> int \<Rightarrow> UserPermissionProfile" where
  "default_permission_profile user_id now =
     \<lparr> profile_user_id = user_id, permission_level = WRITE_LIMITED,
       allowed_operations = {''create'', ''update'', ''bulk_tag''},
       daily_operation_limit = 100, batch_size_limit = 50, require_2fa = False,
       valid_from = TimeText (Aware now), valid_until = None,
       allowed_sources = None, forbidden_operations = None \<rparr>"

definition create_default_permission_profile :: "string \<Rightarrow> int \<Rightarrow> exn + UserPermissionProfile" where
  "create_default_permission_profile user_id now =
     (let default_profile = default_permission_profile user_id now in
      Inl (DataError ''invalid input for query argument $7: expected a datetime instance, got str''))"

text \<open>
  \<^verbatim>\<open>get_user_permission_profile\<close>: the profile of the user, or the attempt to make the default
  one. (The write of a row's profile to the cache does not influence the decision of the call
  that makes it and is left out.)
\<close>

definition get_user_permission_profile ::
  "perm_store \<Rightarrow> string \<Rightarrow> int \<Rightarrow> exn + UserPermissionProfile" where
  "get_user_permission_profile ps user_id now =
     (case profiles ps user_id of
        Some p \<Rightarrow> Inr p
      | None \<Rightarrow> create_default_permission_profile user_id now)"

definition get_daily_operation_count :: "perm_store \<Rightarrow> string \<Rightarrow> int \<Rightarrow> int" where
  "get_daily_operation_count ps user_id now =
     int (length (filter (\<lambda>(u, requested_at). u = user_id \<and> requested_at div 86400 = now div 86400)
                         (operation_audit_logs ps)))"

text \<open>\<^verbatim>\<open>verify_2fa_for_operation\<close>: true only for a non-empty session id whose key holds a
  non-empty value.\<close>

definition verify_2fa_for_operation :: "perm_store \<Rightarrow> string \<Rightarrow> string option \<Rightarrow> bool" where
  "verify_2fa_for_operation ps user_id session_id =
     (case session_id of
        None \<Rightarrow> False
      | Some sid \<Rightarrow>
          (if sid = [] then False
           else (case twofa_verified ps sid of None \<Rightarrow> False | Some v \<Rightarrow> v \<noteq> [])))"

text \<open>The second component of the answer, with the values its message is formatted from.\<close>

datatype reason =
    NoWritePermissions
  | ReadOnlyAccess
  | OperationNotPermitted string
  | OperationForbidden string
  | PermissionsNotYetActive
  | PermissionsExpired
  | DailyLimitExceeded
  | BatchSizeLimitExceeded int int
  | AdminRequired
  | FullWriteRequired
  | TwoFactorRequired
  | PermissionGranted

text \<open>
  A validity bound made comparable with the wall clock:
  \<^verbatim>\<open>datetime.fromisoformat(bound.replace('Z', '+00:00'))\<close>, then the comparison.
\<close>

definition instant_of :: "pytime \<Rightarrow> exn + int" where
  "instant_of bound =
     (case replace_z bound of
        Inl e \<Rightarrow> Inl e
      | Inr (Aware t) \<Rightarrow> Inr t
      | Inr (Naive t) \<Rightarrow> Inl (TypeError ''offset-naive and offset-aware datetimes'')
      | Inr Malformed \<Rightarrow> Inl (ValueError ''Invalid isoformat string''))"

text \<open>Steps 6 to 10 of \<^verbatim>\<open>validate_write_permission\<close>.\<close>

definition validate_limits_and_risk ::
  "perm_store \<Rightarrow> int \<Rightarrow> string \<Rightarrow> string \<Rightarrow> operation_data \<Rightarrow> string option
     \<Rightarrow> UserPermissionProfile \<Rightarrow> bool \<times> reason \<times> string list" where
  "validate_limits_and_risk ps now user_id operation_type od session_id user_profile =
     (if get_daily_operation_count ps user_id now \<ge> daily_operation_limit user_profile
      then (False, DailyLimitExceeded, [])
      else if affected_count_of od > batch_size_limit user_profile
      then (False, BatchSizeLimitExceeded (affected_count_of od) (batch_size_limit user_profile), [])
      else
        (case assess_operation_risk now operation_type od user_profile of
           (risk_level, risk_score, risk_flags) \<Rightarrow>
             if risk_level = CRITICAL \<and> permission_level user_profile \<noteq> ADMIN
             then (False, AdminRequired, risk_flags)
             else if risk_level = HIGH \<and> permission_level user_profile \<notin> {WRITE_FULL, ADMIN}
             then (False, FullWriteRequired, risk_flags)
             else if require_2fa user_profile \<and> risk_level \<in> {HIGH, CRITICAL}
                     \<and> \<not> verify_2fa_for_operation ps user_id session_id
             then (False, TwoFactorRequired, risk_flags)
             else (True, PermissionGranted, risk_flags)))"

text \<open>
  \<^verbatim>\<open>PermissionValidator.validate_write_permission\<close>; \<open>session_id\<close> is
  \<^verbatim>\<open>context.get("session_id")\<close>.
\<close>

definition validate_write_permission ::
  "perm_store \<Rightarrow> int \<Rightarrow> string \<Rightarrow> string \<Rightarrow> operation_data \<Rightarrow> string option
     \<Rightarrow> exn + (bool \<times> reason \<times> string list)" where
  "validate_write_permission ps now user_id operation_type od session_id =
     (case get_user_permission_profile ps user_id now of
        Inl e \<Rightarrow> Inl e
      | Inr user_profile \<Rightarrow>
          if permission_level user_profile = NONE then Inr (False, NoWritePermissions, [])
          else if permission_level user_profile = READ_ONLY then Inr (False, ReadOnlyAccess, [])
          else if operation_type \<notin> allowed_operations user_profile
          then Inr (False, OperationNotPermitted operation_type, [])
          else if (case forbidden_operations user_profile of
                     None \<Rightarrow> False | Some fs \<Rightarrow> fs \<noteq> {} \<and> operation_type \<in> fs)
          then Inr (False, OperationForbidden operation_type, [])
          else
            (case instant_of (valid_from user_profile) of
               Inl e \<Rightarrow> Inl e
             | Inr vf \<Rightarrow>
                 if now < vf then Inr (False, PermissionsNotYetActive, [])
                 else
                   (case valid_until user_profile of
                      None \<Rightarrow> Inr (validate_limits_and_risk ps now user_id operation_type od
                                      session_id user_profile)
                    | Some bound \<Rightarrow>
                        (case instant_of bound of
                           Inl e \<Rightarrow> Inl e
                         | Inr vu \<Rightarrow>
                             if now > vu then Inr (False, PermissionsExpired, [])
                             else Inr (validate_limits_and_risk ps now user_id operation_type od
                                         session_id user_profile)))))"

subsection \<open>The stores\<close>

text \<open>
  The value under the Redis key \<^verbatim>\<open>hinata:full:<id>\<close>: the storage engine writes the JSON
  document gzip-compressed, the processor writes it as plain JSON.
\<close>

datatype blob = Gzipped hinata | PlainJson hinata

text \<open>
  The first ten characters of a timestamp text, which name a cold shard: the calendar day of a
  text that parses, some other prefix otherwise.
\<close>

datatype date_str = Day int | Garbled

definition date_prefix :: "tstamp \<Rightarrow> date_str" where
  "date_prefix ts = (case ts of Aware t \<Rightarrow> Day (t div 86400) | Naive t \<Rightarrow> Day (t div 86400)
                              | Malformed \<Rightarrow> Garbled)"

text \<open>A row of the table \<^verbatim>\<open>hinata_index\<close>.\<close>

record index_row =
  ix_hinata_id :: string
  ix_user_id :: string
  ix_timestamp :: int
  ix_source :: string
  ix_psp_influence_weight :: real
  ix_attention_weight :: real
  ix_quality_score :: real
  ix_storage_tier :: string
  ix_tags :: "string list"

text \<open>The value under the Redis key \<^verbatim>\<open>backup:<user_id>:<operation_id>\<close>.\<close>

record backup =
  backup_user_id :: string
  backup_operation_id :: string
  backup_time :: int
  backup_rows :: "row list"

text \<open>
  One state for the three back ends and the engine's cache. Redis: the full documents, the
  per-user sorted set by influence, the per-user timeline, the backups. PostgreSQL: the tables
  \<^verbatim>\<open>hinata_data\<close>, \<^verbatim>\<open>hinata_index\<close> and \<^verbatim>\<open>user_permissions\<close>. The cold tier: one shard per user
  and day, whose index file lists the ids of the shard's documents. The per-topic and
  per-source Redis sets, the expiry of Redis keys and the engine's metrics are written or
  kept by the code but read by none of the operations below, and are left out.
\<close>

record system =
  redis_full :: "string \<rightharpoonup> blob"
  redis_user_hot :: "string \<Rightarrow> (string \<times> real) list"
  redis_timeline :: "string \<Rightarrow> (string \<times> int) list"
  redis_backup :: "string \<rightharpoonup> backup"
  tbl_hinata_data :: "row list"
  tbl_hinata_index :: "index_row list"
  tbl_user_permissions :: "string \<rightharpoonup> string list"
  cold_files :: "((string \<times> date_str) \<times> hinata list) list"
  cache :: "string \<rightharpoonup> (stored \<times> int)"
  cache_ttl :: int

text \<open>\<^verbatim>\<open>ZADD key {member: score}\<close>: a member has one score.\<close>

definition zadd :: "string \<Rightarrow> 'a \<Rightarrow> (string \<times> 'a) list \<Rightarrow> (string \<times> 'a) list" where
  "zadd member score zs = filter (\<lambda>(m, s). m \<noteq> member) zs @ [(member, score)]"

subsection \<open>Tiered store (StorageEngine.py)\<close>

datatype StorageTier = HOT | WARM | COLD

text \<open>
  \<^verbatim>\<open>_determine_storage_tier\<close>, of the engine and of the processor alike: the influence is
  read, the timestamp is parsed (which raises on a \<^verbatim>\<open>datetime\<close>), and only then the influence
  is compared (which raises on \<^verbatim>\<open>None\<close>).
\<close>

definition determine_storage_tier :: "int \<Rightarrow> real option \<Rightarrow> pytime \<Rightarrow> exn + StorageTier" where
  "determine_storage_tier now influence_weight timestamp =
     (case replace_z timestamp of
        Inl e \<Rightarrow> Inl e
      | Inr created_text \<Rightarrow>
          (case days_between now created_text of
             Inl e \<Rightarrow> Inl e
           | Inr recency_days \<Rightarrow>
               (case influence_weight of
                  None \<Rightarrow> Inl (TypeError ''> not supported between NoneType and float'')
                | Some w \<Rightarrow>
                    Inr (if w > 0.7 \<or> recency_days < 7 then HOT
                         else if w > 0.3 \<or> recency_days < 30 then WARM
                         else COLD))))"

text \<open>
  \<^verbatim>\<open>HotStorageManager.store_hinata\<close>. The timeline score is parsed after the first two
  writes, so a malformed timestamp raises with those writes done.
\<close>

definition hot_store_hinata :: "system \<Rightarrow> hinata \<Rightarrow> string \<Rightarrow> exn option \<times> system" where
  "hot_store_hinata sys hinata_data user_id =
     (let hinata_id = h_id hinata_data;
          influence_weight = opt0 (h_psp_influence_weight hinata_data);
          sys1 = sys \<lparr> redis_full := (redis_full sys)(hinata_id \<mapsto> Gzipped hinata_data),
                       redis_user_hot := (redis_user_hot sys)
                         (user_id := zadd hinata_id influence_weight (redis_user_hot sys user_id)) \<rparr>
      in case h_timestamp hinata_data of
           Malformed \<Rightarrow> (Some (ValueError ''Invalid isoformat string''), sys1)
         | Aware t \<Rightarrow>
             (None, sys1 \<lparr> redis_timeline := (redis_timeline sys1)
                            (user_id := zadd hinata_id t (redis_timeline sys1 user_id)) \<rparr>)
         | Naive t \<Rightarrow>
             (None, sys1 \<lparr> redis_timeline := (redis_timeline sys1)
                            (user_id := zadd hinata_id t (redis_timeline sys1 user_id)) \<rparr>))"

definition hot_get_hinata :: "system \<Rightarrow> string \<Rightarrow> hinata option" where
  "hot_get_hinata sys hinata_id =
     (case redis_full sys hinata_id of
        None \<Rightarrow> None
      | Some (Gzipped h) \<Rightarrow> Some h
      | Some (PlainJson h) \<Rightarrow> None)"

definition hot_query_by_time_range :: "system \<Rightarrow> string \<Rightarrow> int \<Rightarrow> int \<Rightarrow> string list" where
  "hot_query_by_time_range sys user_id start_time end_time =
     map fst (sort_key snd
       (filter (\<lambda>(m, t). start_time \<le> t \<and> t \<le> end_time) (redis_timeline sys user_id)))"

text \<open>
  \<^verbatim>\<open>WarmStorageManager.store_hinata\<close>. The third argument of its \<^verbatim>\<open>INSERT\<close> is
  \<^verbatim>\<open>hinata_data['timestamp']\<close>, a string, for the column \<^verbatim>\<open>timestamp\<close>: the driver refuses
  it, so that neither the row nor (in \<^verbatim>\<open>_update_index_table\<close>, which comes after) the index
  row is written.
\<close>

definition warm_store_hinata :: "system \<Rightarrow> hinata \<Rightarrow> string \<Rightarrow> exn option \<times> system" where
  "warm_store_hinata sys hinata_data user_id =
     (Some (DataError ''invalid input for query argument $3: expected a datetime instance, got str''),
      sys)"

definition warm_get_hinata :: "system \<Rightarrow> string \<Rightarrow> row option" where
  "warm_get_hinata sys hinata_id = find (\<lambda>r. c_id r = hinata_id) (tbl_hinata_data sys)"

text \<open>\<^verbatim>\<open>fetch\<close> of the first \<open>n\<close> rows; a negative \<^verbatim>\<open>LIMIT\<close> is an error of the database.\<close>

definition warm_query_high_weight :: "system \<Rightarrow> string \<Rightarrow> real \<Rightarrow> nat \<Rightarrow> string list" where
  "warm_query_high_weight sys user_id min_influence_weight limit =
     map ix_hinata_id
       (take limit
         (sort_key (\<lambda>r. (- ix_psp_influence_weight r, - ix_timestamp r))
           (filter (\<lambda>r. ix_user_id r = user_id \<and> ix_psp_influence_weight r \<ge> min_influence_weight)
             (tbl_hinata_index sys))))"

text \<open>
  \<^verbatim>\<open>ColdStorageManager._store_date_batch\<close>: the documents of the shard keyed by id, the new
  ones written over them or appended.
\<close>

definition put_doc :: "hinata \<Rightarrow> hinata list \<Rightarrow> hinata list" where
  "put_doc h docs =
     (if \<exists>d \<in> set docs. h_id d = h_id h
      then map (\<lambda>d. if h_id d = h_id h then h else d) docs
      else docs @ [h])"

definition cold_shard :: "system \<Rightarrow> string \<times> date_str \<Rightarrow> hinata list" where
  "cold_shard sys k = (case map_of (cold_files sys) k of None \<Rightarrow> [] | Some docs \<Rightarrow> docs)"

definition cold_store_hinata :: "system \<Rightarrow> hinata \<Rightarrow> string \<Rightarrow> system" where
  "cold_store_hinata sys h user_id =
     (let k = (user_id, date_prefix (h_timestamp h));
          merged = put_doc h (cold_shard sys k)
      in sys \<lparr> cold_files := filter (\<lambda>(k', docs). k' \<noteq> k) (cold_files sys) @ [(k, merged)] \<rparr>)"

text \<open>
  \<^verbatim>\<open>ColdStorageManager.get_hinata\<close> without a date hint: the index files under the directory
  of \<^verbatim>\<open>user_id\<close> are searched for the id, and the shard of the first hit is read.
\<close>

definition cold_get_hinata :: "system \<Rightarrow> string \<Rightarrow> string \<Rightarrow> hinata option" where
  "cold_get_hinata sys hinata_id user_id =
     (case filter (\<lambda>((u, d), docs). u = user_id \<and> hinata_id \<in> set (map h_id docs))
             (cold_files sys) of
        [] \<Rightarrow> None
      | (k, docs) # rest \<Rightarrow> find (\<lambda>h. h_id h = hinata_id) docs)"

text \<open>
  \<^verbatim>\<open>StorageEngine.store_hinata\<close> with the vector and full-text indexes disabled (the default
  of the configuration).
\<close>

definition store_hinata :: "system \<Rightarrow> int \<Rightarrow> hinata \<Rightarrow> string \<Rightarrow> exn option \<times> system" where
  "store_hinata sys now hinata_data user_id =
     (case determine_storage_tier now (Some (opt0 (h_psp_influence_weight hinata_data)))
             (TimeText (h_timestamp hinata_data)) of
        Inl e \<Rightarrow> (Some e, sys)
      | Inr HOT \<Rightarrow> hot_store_hinata sys hinata_data user_id
      | Inr WARM \<Rightarrow> warm_store_hinata sys hinata_data user_id
      | Inr COLD \<Rightarrow> (None, cold_store_hinata sys hinata_data user_id))"

text \<open>
  \<^verbatim>\<open>StorageEngine.retrieve_hinata\<close>. The cache key is \<^verbatim>\<open>f"{user_id}:{hinata_id}"\<close>; the hot and
  the warm tier are asked with the id alone, the cold tier with the id and the user.
\<close>

definition cache_key :: "string \<Rightarrow> string \<Rightarrow> string" where
  "cache_key user_id hinata_id = user_id @ '':'' @ hinata_id"

definition probe_tiers :: "system \<Rightarrow> string \<Rightarrow> string \<Rightarrow> stored option" where
  "probe_tiers sys hinata_id user_id =
     (case hot_get_hinata sys hinata_id of
        Some h \<Rightarrow> Some (Doc h)
      | None \<Rightarrow>
          (case warm_get_hinata sys hinata_id of
             Some r \<Rightarrow> Some (Row r)
           | None \<Rightarrow>
               (case cold_get_hinata sys hinata_id user_id of
                  Some h \<Rightarrow> Some (Doc h)
                | None \<Rightarrow> None)))"

definition cache_lookup :: "system \<Rightarrow> int \<Rightarrow> string \<Rightarrow> stored option" where
  "cache_lookup sys now key =
     (case cache sys key of
        None \<Rightarrow> None
      | Some (cached_data, timestamp) \<Rightarrow>
          if now - timestamp < cache_ttl sys then Some cached_data else None)"

definition retrieve_hinata :: "system \<Rightarrow> int \<Rightarrow> string \<Rightarrow> string \<Rightarrow> stored option \<times> system" where
  "retrieve_hinata sys now hinata_id user_id =
     (case cache_lookup sys now (cache_key user_id hinata_id) of
        Some cached_data \<Rightarrow> (Some cached_data, sys)
      | None \<Rightarrow>
          (case probe_tiers sys hinata_id user_id of
             Some d \<Rightarrow> (Some d, sys \<lparr> cache := (cache sys)(cache_key user_id hinata_id \<mapsto> (d, now)) \<rparr>)
           | None \<Rightarrow> (None, sys)))"

text \<open>\<^verbatim>\<open>RetrievalQuery\<close> and \<^verbatim>\<open>RetrievalResult\<close>, with the fields the search reads and writes.\<close>

record RetrievalQuery =
  query_user_id :: string
  query_time_range :: "(int \<times> int) option"
  query_limit :: int
  min_relevance_score :: real

record RetrievalResult =
  result_hinata_id :: string
  relevance_score :: real
  storage_tier :: StorageTier

text \<open>\<^verbatim>\<open>xs[:n]\<close> for an int \<open>n\<close>.\<close>

definition py_take :: "int \<Rightarrow> 'a list \<Rightarrow> 'a list" where
  "py_take n xs = (if n \<ge> 0 then take (nat n) xs else take (length xs - nat (- n)) xs)"

text \<open>
  The loop of \<^verbatim>\<open>_rank_and_filter_results\<close>: each candidate is fetched with
  \<^verbatim>\<open>retrieve_hinata\<close> under the query's user; a score or a tier that cannot be computed
  raises, and nothing catches it.
\<close>

fun rank_loop ::
  "system \<Rightarrow> int \<Rightarrow> RetrievalQuery \<Rightarrow> string list \<Rightarrow> (exn + RetrievalResult list) \<times> system" where
  "rank_loop sys now query [] = (Inr [], sys)"
| "rank_loop sys now query (hinata_id # rest) =
     (case retrieve_hinata sys now hinata_id (query_user_id query) of
        (None, sys1) \<Rightarrow> rank_loop sys1 now query rest
      | (Some d, sys1) \<Rightarrow>
          (case calculate_relevance_score now d of
             Inl e \<Rightarrow> (Inl e, sys1)
           | Inr score \<Rightarrow>
               if score < min_relevance_score query then rank_loop sys1 now query rest
               else (case determine_storage_tier now (get_psp_influence_weight d)
                            (get_timestamp d) of
                       Inl e \<Rightarrow> (Inl e, sys1)
                     | Inr tier \<Rightarrow>
                         (case rank_loop sys1 now query rest of
                            (Inl e, sys2) \<Rightarrow> (Inl e, sys2)
                          | (Inr results, sys2) \<Rightarrow>
                              (Inr (\<lparr> result_hinata_id = hinata_id, relevance_score = score,
                                      storage_tier = tier \<rparr> # results), sys2)))))"

text \<open>
  \<^verbatim>\<open>multi_strategy_search\<close>. \<open>semantic_ids\<close> and \<open>text_ids\<close> are what the vector and the
  full-text index return (nothing when they are disabled). The candidates are a Python set,
  whose iteration order is not specified: here, first occurrence.
\<close>

definition multi_strategy_search ::
  "system \<Rightarrow> int \<Rightarrow> string list \<Rightarrow> string list \<Rightarrow> RetrievalQuery
     \<Rightarrow> (exn + RetrievalResult list) \<times> system" where
  "multi_strategy_search sys now semantic_ids text_ids query =
     (let high_weight_ids = warm_query_high_weight sys (query_user_id query) 0.7 15;
          recent_ids = (case query_time_range query of
                          None \<Rightarrow> []
                        | Some (t0, t1) \<Rightarrow> hot_query_by_time_range sys (query_user_id query) t0 t1);
          all_candidates = remdups (semantic_ids @ text_ids @ high_weight_ids @ recent_ids)
      in case rank_loop sys now query all_candidates of
           (Inl e, sys1) \<Rightarrow> (Inl e, sys1)
         | (Inr results, sys1) \<Rightarrow>
             (Inr (py_take (query_limit query)
                    (sort_key (\<lambda>r. - relevance_score r) results)), sys1))"


subsection \<open>Validation and normalization (\<^verbatim>\<open>HiNATAProcessor.HiNATAValidator\<close>)\<close>

text \<open>
  A submitted record is a dictionary: each key of the schema may be absent, \<^verbatim>\<open>tag\<close> may hold
  any JSON value, and there may be keys outside the schema.
\<close>

record hinata_dict =
  d_id :: "string option"
  d_timestamp :: "tstamp option"
  d_source :: "string option"
  d_highlight :: "string option"
  d_note :: "string option"
  d_address :: "string option"
  d_tag :: "jvalue option"
  d_access :: "string option"
  d_raw_data :: "(string \<times> jvalue) list option"
  d_extra_keys :: "string list"

definition ACCESS_LEVELS :: "string list" where
  "ACCESS_LEVELS = [''private'', ''public'', ''shared'']"

definition missing_fields :: "hinata_dict \<Rightarrow> string list" where
  "missing_fields d =
     (if d_id d = None then [''id''] else []) @
     (if d_timestamp d = None then [''timestamp''] else []) @
     (if d_source d = None then [''source''] else []) @
     (if d_highlight d = None then [''highlight''] else []) @
     (if d_note d = None then [''note''] else []) @
     (if d_address d = None then [''address''] else []) @
     (if d_tag d = None then [''tag''] else []) @
     (if d_access d = None then [''access''] else [])"

definition is_list :: "jvalue \<Rightarrow> bool" where
  "is_list v = (case v of JArr xs \<Rightarrow> True | _ \<Rightarrow> False)"

definition validate :: "hinata_dict \<Rightarrow> bool \<times> validation_error list" where
  "validate d =
     (if missing_fields d \<noteq> [] then (False, map MissingRequiredField (missing_fields d))
      else
        (let errors =
           (if \<not> is_list (the (d_tag d)) then [TagMustBeList] else []) @
           (if the (d_access d) \<notin> set ACCESS_LEVELS then [InvalidAccessLevel (the (d_access d))]
            else []) @
           (if the (d_timestamp d) = Malformed then [InvalidTimestampFormat] else []) @
           (if length (the (d_highlight d)) > 10000 then [HighlightTooLong] else []) @
           (if length (the (d_note d)) > 50000 then [NoteTooLong] else [])
         in (errors = [], errors)))"

text \<open>The comprehension \<^verbatim>\<open>[tag.strip().lower() for tag in tags if tag.strip()]\<close>.\<close>

definition clean_tags :: "string list \<Rightarrow> string list" where
  "clean_tags tags = map (\<lambda>t. lower (strip t)) (filter (\<lambda>t. strip t \<noteq> []) tags)"

text \<open>The strings of a list of JSON values, if all of them are strings.\<close>

fun strings_of :: "jvalue list \<Rightarrow> string list option" where
  "strings_of [] = Some []"
| "strings_of (JStr s # vs) = (case strings_of vs of None \<Rightarrow> None | Some ss \<Rightarrow> Some (s # ss))"
| "strings_of (v # vs) = None"

text \<open>
  \<^verbatim>\<open>standardize\<close>. The timestamp is parsed again (and raises on a text that does not parse);
  iterating a \<^verbatim>\<open>tag\<close> that is a string yields its characters; a \<^verbatim>\<open>tag\<close> element that is not a
  string has no \<^verbatim>\<open>strip\<close>.
\<close>

definition standardize :: "hinata_dict \<Rightarrow> exn + hinata_dict" where
  "standardize d =
     (if d_timestamp d = Some Malformed then Inl (ValueError ''Invalid isoformat string'')
      else
        (case d_tag d of
           None \<Rightarrow> Inr (d \<lparr> d_raw_data := Some (case d_raw_data d of None \<Rightarrow> [] | Some m \<Rightarrow> m) \<rparr>)
         | Some (JArr vs) \<Rightarrow>
             (case strings_of vs of
                None \<Rightarrow> Inl (AttributeError ''object has no attribute strip'')
              | Some tags \<Rightarrow>
                  Inr (d \<lparr> d_tag := Some (JArr (map JStr (clean_tags tags))),
                           d_raw_data := Some (case d_raw_data d of None \<Rightarrow> [] | Some m \<Rightarrow> m) \<rparr>))
         | Some (JStr s) \<Rightarrow>
             Inr (d \<lparr> d_tag := Some (JArr (map JStr (clean_tags (map (\<lambda>c. [c]) s)))),
                      d_raw_data := Some (case d_raw_data d of None \<Rightarrow> [] | Some m \<Rightarrow> m) \<rparr>)
         | Some v \<Rightarrow> Inl (TypeError ''object is not iterable'')))"

text \<open>
  \<^verbatim>\<open>HiNATAData(**standardized)\<close>: a key outside the dataclass, or a missing one, is a
  \<^verbatim>\<open>TypeError\<close>.
\<close>

definition hinata_of_dict :: "hinata_dict \<Rightarrow> exn + hinata" where
  "hinata_of_dict d =
     (if d_extra_keys d \<noteq> [] then Inl (TypeError ''unexpected keyword argument'')
      else
        (case (d_id d, d_timestamp d, d_source d, d_highlight d, d_note d, d_address d,
               d_tag d, d_access d, d_raw_data d) of
           (Some i, Some ts, Some src, Some hl, Some nt, Some addr, Some (JArr vs), Some acc,
            Some raw) \<Rightarrow>
             (case strings_of vs of
                None \<Rightarrow> Inl (TypeError ''tag is not a list of strings'')
              | Some tags \<Rightarrow>
                  Inr \<lparr> h_id = i, h_timestamp = ts, h_source = src, h_highlight = hl, h_note = nt,
                        h_address = addr, h_tag = tags, h_access = acc, h_raw_data = raw,
                        h_enhanced_tags = None, h_recommended_highlights = None,
                        h_semantic_analysis = None, h_attention_weight = None,
                        h_quality_score = None, h_psp_influence_weight = None,
                        h_embedding_vector = None, h_processing_metadata = None \<rparr>)
         | _ \<Rightarrow> Inl (TypeError ''missing required positional argument'')))"

subsection \<open>Enrichment, scoring and the ingestion pipeline (\<^verbatim>\<open>HiNATAProcessor\<close>)\<close>

record quality_factors =
  content_depth :: real
  information_value :: real
  user_engagement :: real
  complexity :: real
  novelty :: real

definition calculate_quality_score :: "quality_factors \<Rightarrow> real" where
  "calculate_quality_score factors =
     (let quality_score = content_depth factors * 0.25 + information_value factors * 0.25
                        + user_engagement factors * 0.20 + complexity factors * 0.15
                        + novelty factors * 0.15
      in min (max quality_score 0.0) 1.0)"

record attention_metrics =
  highlight_frequency :: int
  note_density :: int
  address_revisit :: int
  time_investment :: real
  interaction_depth :: string

definition normalize_frequency_weight :: "int \<Rightarrow> real" where
  "normalize_frequency_weight frequency =
     (if frequency \<le> 1 then 0.1 else if frequency \<le> 3 then 0.4
      else if frequency \<le> 5 then 0.7 else 1.0)"

definition normalize_density_weight :: "int \<Rightarrow> real" where
  "normalize_density_weight density =
     (if density \<le> 1 then 0.2 else if density \<le> 3 then 0.6
      else if density \<le> 5 then 0.8 else 1.0)"

definition normalize_revisit_weight :: "int \<Rightarrow> real" where
  "normalize_revisit_weight revisit =
     (if revisit \<le> 1 then 0.1 else if revisit \<le> 3 then 0.5
      else if revisit \<le> 6 then 0.8 else 1.0)"

definition normalize_time_weight :: "real \<Rightarrow> real" where
  "normalize_time_weight time_seconds =
     (if time_seconds < 30 then 0.1 else if time_seconds < 120 then 0.4
      else if time_seconds < 300 then 0.7 else 1.0)"

definition get_depth_multiplier :: "string \<Rightarrow> real" where
  "get_depth_multiplier depth =
     (case map_of [(''low'', 0.8), (''medium'', 1.0), (''high'', 1.2)] depth of
        None \<Rightarrow> 1.0 | Some m \<Rightarrow> m)"

definition calculate_attention_weight :: "attention_metrics \<Rightarrow> real" where
  "calculate_attention_weight metrics =
     (let highlight_weight = normalize_frequency_weight (highlight_frequency metrics);
          note_weight = normalize_density_weight (note_density metrics);
          revisit_weight = normalize_revisit_weight (address_revisit metrics);
          time_weight = normalize_time_weight (time_investment metrics);
          attention_weight = highlight_weight * 0.30 + note_weight * 0.25
                           + revisit_weight * 0.30 + time_weight * 0.15;
          depth_multiplier = get_depth_multiplier (interaction_depth metrics)
      in min (attention_weight * depth_multiplier) 1.0)"

text \<open>
  What the pipeline calls but this development does not unfold: the language and embedding
  models behind the four enrichment stages (each may raise), the five text heuristics of the
  quality scorer, and the five history counts of the attention calculator (which may raise).
  Every property below holds for all of them.
\<close>

record pipeline =
  generate_semantic_tags :: "hinata \<Rightarrow> exn + string list"
  recommend_highlights :: "hinata \<Rightarrow> exn + string list"
  analyze_semantics :: "hinata \<Rightarrow> exn + semantic"
  generate_embedding :: "hinata \<Rightarrow> exn + real list"
  assess_quality :: "hinata \<Rightarrow> quality_factors"
  measure_attention :: "row list \<Rightarrow> hinata \<Rightarrow> string \<Rightarrow> exn + attention_metrics"

definition extract_recommended_highlights :: "pipeline \<Rightarrow> hinata \<Rightarrow> exn + string list" where
  "extract_recommended_highlights pl h =
     (if length (h_note h) < 100 then Inr [h_note h] else recommend_highlights pl h)"

text \<open>
  \<^verbatim>\<open>AIEnhancer.enhance_hinata\<close>: four stages in order on the one record object; no stage is
  guarded by a \<^verbatim>\<open>try\<close>.
\<close>

definition enhance_hinata :: "pipeline \<Rightarrow> hinata \<Rightarrow> exn + hinata" where
  "enhance_hinata pl h =
     (case generate_semantic_tags pl h of
        Inl e \<Rightarrow> Inl e
      | Inr tags \<Rightarrow>
          (let h1 = h \<lparr> h_enhanced_tags := Some tags \<rparr> in
           case extract_recommended_highlights pl h1 of
             Inl e \<Rightarrow> Inl e
           | Inr highlights \<Rightarrow>
               (let h2 = h1 \<lparr> h_recommended_highlights := Some highlights \<rparr> in
                case analyze_semantics pl h2 of
                  Inl e \<Rightarrow> Inl e
                | Inr sem \<Rightarrow>
                    (let h3 = h2 \<lparr> h_semantic_analysis := Some sem \<rparr> in
                     case generate_embedding pl h3 of
                       Inl e \<Rightarrow> Inl e
                     | Inr vec \<Rightarrow> Inr (h3 \<lparr> h_embedding_vector := Some vec \<rparr>)))))"

text \<open>\<^verbatim>\<open>_get_user_historical_data(user_id, days=30)\<close>.\<close>

definition get_user_historical_data :: "system \<Rightarrow> int \<Rightarrow> string \<Rightarrow> row list" where
  "get_user_historical_data sys now user_id =
     sort_key (\<lambda>r. - c_timestamp r)
       (filter (\<lambda>r. c_user_id r = user_id \<and> c_timestamp r \<ge> now - 30 * 86400)
          (tbl_hinata_data sys))"

text \<open>
  \<^verbatim>\<open>_store_in_hot_layer\<close>: the document as plain JSON, and the user's sorted set. (It also
  writes the per-topic sets.)
\<close>

definition store_in_hot_layer :: "system \<Rightarrow> hinata \<Rightarrow> string \<Rightarrow> system" where
  "store_in_hot_layer sys h user_id =
     sys \<lparr> redis_full := (redis_full sys)(h_id h \<mapsto> PlainJson h),
           redis_user_hot := (redis_user_hot sys)
             (user_id := zadd (h_id h) (opt0 (h_psp_influence_weight h)) (redis_user_hot sys user_id)) \<rparr>"

text \<open>
  \<^verbatim>\<open>_store_in_warm_layer\<close>, which \<^verbatim>\<open>_store_in_cold_layer\<close> calls too: the third argument of
  its \<^verbatim>\<open>INSERT\<close> into \<^verbatim>\<open>hinata_data\<close> is \<^verbatim>\<open>hinata.timestamp\<close>, a string, for the column
  \<^verbatim>\<open>timestamp\<close>. The driver refuses it and no row is written.
\<close>

definition store_in_warm_layer :: "system \<Rightarrow> hinata \<Rightarrow> string \<Rightarrow> exn option \<times> system" where
  "store_in_warm_layer sys h user_id =
     (Some (DataError ''invalid input for query argument $3: expected a datetime instance, got str''),
      sys)"

text \<open>
  \<^verbatim>\<open>_build_indexes\<close>: the arguments of the \<^verbatim>\<open>INSERT\<close> into \<^verbatim>\<open>hinata_index\<close> are evaluated
  (the tier is determined once more), then the third one, \<^verbatim>\<open>hinata.timestamp\<close>, a string, is
  refused for the \<^verbatim>\<open>BIGINT\<close> column \<^verbatim>\<open>timestamp\<close>. No index row is written.
\<close>

definition build_indexes :: "system \<Rightarrow> int \<Rightarrow> hinata \<Rightarrow> string \<Rightarrow> exn option \<times> system" where
  "build_indexes sys now h user_id =
     (case determine_storage_tier now (Some (opt0 (h_psp_influence_weight h)))
             (TimeText (h_timestamp h)) of
        Inl e \<Rightarrow> (Some e, sys)
      | Inr tier \<Rightarrow>
          (Some (DataError ''invalid input for query argument $3: an integer is required, got str''),
           sys))"

text \<open>
  \<^verbatim>\<open>_store_and_index\<close>: the tier's store, then \<^verbatim>\<open>_build_indexes\<close>. What the hot layer
  wrote stays written when the index statement is refused.
\<close>

definition store_and_index :: "system \<Rightarrow> int \<Rightarrow> hinata \<Rightarrow> string \<Rightarrow> exn option \<times> system" where
  "store_and_index sys now h user_id =
     (case determine_storage_tier now (Some (opt0 (h_psp_influence_weight h)))
             (TimeText (h_timestamp h)) of
        Inl e \<Rightarrow> (Some e, sys)
      | Inr tier \<Rightarrow>
          (case (if tier = HOT then (None, store_in_hot_layer sys h user_id)
                 else store_in_warm_layer sys h user_id) of
             (Some e, sys1) \<Rightarrow> (Some e, sys1)
           | (None, sys1) \<Rightarrow> build_indexes sys1 now h user_id))"

datatype HiNATAProcessingStatus =
    RECEIVED | VALIDATED | ENHANCED | SCORED | STORED | INDEXED | COMPLETED | FAILED

text \<open>\<open>error_message\<close> is the text of an exception, kept as the exception.\<close>

record ProcessingResult =
  status :: HiNATAProcessingStatus
  processed_hinata_id :: string
  error_message :: "exn option"
  result_enhancements :: "string list option"

definition ENHANCEMENTS :: "string list" where
  "ENHANCEMENTS = [''semantic_tags'', ''recommended_highlights'', ''embedding'',
                   ''quality_score'', ''attention_weight'']"

text \<open>Steps 4 to 8 of \<^verbatim>\<open>_process_single_hinata\<close>, on the enhanced record.\<close>

definition score_and_store ::
  "system \<Rightarrow> int \<Rightarrow> pipeline \<Rightarrow> hinata \<Rightarrow> string \<Rightarrow> (exn + ProcessingResult) \<times> system" where
  "score_and_store sys now pl enhanced user_id =
     (let quality_score = calculate_quality_score (assess_quality pl enhanced);
          h4 = enhanced \<lparr> h_quality_score := Some quality_score \<rparr> in
      case measure_attention pl (get_user_historical_data sys now user_id) h4 user_id of
        Inl e \<Rightarrow> (Inl e, sys)
      | Inr metrics \<Rightarrow>
          (let attention_weight = calculate_attention_weight metrics;
               h5 = h4 \<lparr> h_attention_weight := Some attention_weight \<rparr>;
               h6 = h5 \<lparr> h_psp_influence_weight :=
                           Some (calculate_psp_influence_weight quality_score attention_weight) \<rparr>;
               h7 = h6 \<lparr> h_processing_metadata :=
                           Some \<lparr> processed_at = now, processor_version = ''1.0.0'',
                                  enhancements_applied = ENHANCEMENTS \<rparr> \<rparr>
           in case store_and_index sys now h7 user_id of
                (Some e, sys1) \<Rightarrow> (Inl e, sys1)
              | (None, sys1) \<Rightarrow>
                  (Inr \<lparr> status = COMPLETED, processed_hinata_id = h_id h7,
                         error_message = None, result_enhancements = Some ENHANCEMENTS \<rparr>,
                   sys1)))"

definition process_single_hinata ::
  "system \<Rightarrow> int \<Rightarrow> pipeline \<Rightarrow> hinata_dict \<Rightarrow> string \<Rightarrow> (exn + ProcessingResult) \<times> system" where
  "process_single_hinata sys now pl hinata_dict user_id =
     (case validate hinata_dict of
        (False, errors) \<Rightarrow> (Inl (ValidationFailed errors), sys)
      | (True, errors) \<Rightarrow>
          (case standardize hinata_dict of
             Inl e \<Rightarrow> (Inl e, sys)
           | Inr standardized \<Rightarrow>
               (case hinata_of_dict standardized of
                  Inl e \<Rightarrow> (Inl e, sys)
                | Inr h \<Rightarrow>
                    (case enhance_hinata pl h of
                       Inl e \<Rightarrow> (Inl e, sys)
                     | Inr enhanced \<Rightarrow> score_and_store sys now pl enhanced user_id))))"

text \<open>
  \<^verbatim>\<open>process_hinata_batch\<close>: the \<^verbatim>\<open>try/except\<close> around each record turns an exception into
  a \<^verbatim>\<open>FAILED\<close> result and goes on with the next record.
\<close>

definition failed_result :: "hinata_dict \<Rightarrow> exn \<Rightarrow> ProcessingResult" where
  "failed_result hinata_dict e =
     \<lparr> status = FAILED,
       processed_hinata_id = (case d_id hinata_dict of None \<Rightarrow> ''unknown'' | Some i \<Rightarrow> i),
       error_message = Some e, result_enhancements = None \<rparr>"

fun process_hinata_batch ::
  "system \<Rightarrow> int \<Rightarrow> pipeline \<Rightarrow> hinata_dict list \<Rightarrow> string \<Rightarrow> ProcessingResult list \<times> system" where
  "process_hinata_batch sys now pl [] user_id = ([], sys)"
| "process_hinata_batch sys now pl (hinata_dict # rest) user_id =
     (case process_single_hinata sys now pl hinata_dict user_id of
        (Inr result, sys1) \<Rightarrow>
          (case process_hinata_batch sys1 now pl rest user_id of
             (results, sys2) \<Rightarrow> (result # results, sys2))
      | (Inl e, sys1) \<Rightarrow>
          (case process_hinata_batch sys1 now pl rest user_id of
             (results, sys2) \<Rightarrow> (failed_result hinata_dict e # results, sys2)))"


subsection \<open>Write executor (HiNATAWriteAPI.py)\<close>

datatype HiNATAWriteOperation =
    W_CREATE | W_UPDATE | W_DELETE | W_BATCH_UPDATE | W_BULK_TAG | W_BULK_RETAG
  | W_MERGE | W_SPLIT

text \<open>\<^verbatim>\<open>HiNATAWriteOperation(request.operation_type)\<close>; \<open>None\<close> is the \<^verbatim>\<open>ValueError\<close> of the enum.\<close>

definition write_operation_of :: "string \<Rightarrow> HiNATAWriteOperation option" where
  "write_operation_of = map_of
     [(''create'', W_CREATE), (''update'', W_UPDATE), (''delete'', W_DELETE),
      (''batch_update'', W_BATCH_UPDATE), (''bulk_tag'', W_BULK_TAG),
      (''bulk_retag'', W_BULK_RETAG), (''merge'', W_MERGE), (''split'', W_SPLIT)]"

definition get_required_permission :: "HiNATAWriteOperation \<Rightarrow> string" where
  "get_required_permission operation_type =
     (case operation_type of
        W_CREATE \<Rightarrow> ''hinata_write'' | W_UPDATE \<Rightarrow> ''hinata_write''
      | W_DELETE \<Rightarrow> ''hinata_delete'' | W_BATCH_UPDATE \<Rightarrow> ''hinata_bulk_modify''
      | W_BULK_TAG \<Rightarrow> ''hinata_bulk_modify'' | W_BULK_RETAG \<Rightarrow> ''hinata_bulk_modify''
      | W_MERGE \<Rightarrow> ''hinata_write'' | W_SPLIT \<Rightarrow> ''hinata_write'')"

text \<open>\<^verbatim>\<open>WriteOperationValidator.validate_write_permission\<close>.\<close>

definition validator_validate_write_permission ::
  "system \<Rightarrow> string \<Rightarrow> HiNATAWriteOperation \<Rightarrow> bool" where
  "validator_validate_write_permission sys user_id operation_type =
     (case tbl_user_permissions sys user_id of
        None \<Rightarrow> False
      | Some permissions \<Rightarrow> get_required_permission operation_type \<in> set permissions)"

definition validate_hinata_ownership :: "system \<Rightarrow> string \<Rightarrow> string list \<Rightarrow> bool \<times> string list" where
  "validate_hinata_ownership sys user_id hinata_ids =
     (let owned_ids = map c_id (filter (\<lambda>r. c_id r \<in> set hinata_ids \<and> c_user_id r = user_id)
                                   (tbl_hinata_data sys));
          unauthorized_ids = filter (\<lambda>i. i \<notin> set owned_ids) hinata_ids
      in (unauthorized_ids = [], unauthorized_ids))"

text \<open>The keys of a target filter that the queries read, and the names of its other keys.\<close>

record target_filter =
  tf_tag :: "string option"
  tf_source :: "string option"
  tf_date_range :: "(jvalue option \<times> jvalue option) option"
  tf_other_keys :: "string list"

definition filter_is_empty :: "target_filter \<Rightarrow> bool" where
  "filter_is_empty f =
     (tf_tag f = None \<and> tf_source f = None \<and> tf_date_range f = None \<and> tf_other_keys f = [])"

text \<open>The operator \<^verbatim>\<open>tags::jsonb ? $n\<close>: the string is an element of the array, or is the
  string itself.\<close>

definition jsonb_exists :: "jvalue \<Rightarrow> string \<Rightarrow> bool" where
  "jsonb_exists tags t =
     (case tags of JArr xs \<Rightarrow> JStr t \<in> set xs | JStr s' \<Rightarrow> s' = t | _ \<Rightarrow> False)"

definition matches_tag_source :: "target_filter \<Rightarrow> row \<Rightarrow> bool" where
  "matches_tag_source f r =
     ((case tf_tag f of None \<Rightarrow> True | Some t \<Rightarrow> jsonb_exists (c_tags r) t)
      \<and> (case tf_source f of None \<Rightarrow> True | Some src \<Rightarrow> c_source r = src))"

text \<open>
  A bound of \<^verbatim>\<open>date_range\<close> as the argument of a comparison with the column \<^verbatim>\<open>timestamp\<close>:
  an absent key adds no condition, \<^verbatim>\<open>None\<close> is \<^verbatim>\<open>NULL\<close> (the comparison holds for no row),
  a \<^verbatim>\<open>datetime\<close> is compared, and anything else (every other value of a JSON payload) is
  refused by the driver.
\<close>

definition bound_condition ::
  "(int \<Rightarrow> int \<Rightarrow> bool) \<Rightarrow> jvalue option \<Rightarrow> exn + (int \<Rightarrow> bool)" where
  "bound_condition cmp bound =
     (case bound of
        None \<Rightarrow> Inr (\<lambda>t. True)
      | Some JNull \<Rightarrow> Inr (\<lambda>t. False)
      | Some (JDate t0) \<Rightarrow> Inr (\<lambda>t. cmp t t0)
      | Some v \<Rightarrow> Inl (DataError ''invalid input for query argument: expected a datetime instance''))"

text \<open>\<^verbatim>\<open>_estimate_affected_count\<close>: a count over the user's rows, deleted ones included.\<close>

definition estimate_affected_count :: "system \<Rightarrow> target_filter \<Rightarrow> string \<Rightarrow> int" where
  "estimate_affected_count sys filter_conditions user_id =
     int (length (filter (\<lambda>r. c_user_id r = user_id \<and> matches_tag_source filter_conditions r)
                         (tbl_hinata_data sys)))"

record bulk_operation =
  bulk_operation_type :: string
  bulk_target_filter :: target_filter
  bulk_tags :: "jvalue option"
  dry_run :: bool
  batch_size :: int

definition validate_bulk_operation_safety ::
  "system \<Rightarrow> bulk_operation \<Rightarrow> string \<Rightarrow> bool \<times> safety_error list" where
  "validate_bulk_operation_safety sys bulk_op user_id =
     (let estimated_count = estimate_affected_count sys (bulk_target_filter bulk_op) user_id;
          errors =
            (if filter_is_empty (bulk_target_filter bulk_op) then [MustSpecifyTargetFilter] else []) @
            (if batch_size bulk_op > 1000 then [BatchSizeTooLarge] else []) @
            (if estimated_count > 10000 then [WouldAffectTooManyRecords estimated_count] else [])
      in (errors = [], errors))"

definition find_hinatas_by_filter :: "system \<Rightarrow> target_filter \<Rightarrow> string \<Rightarrow> exn + row list" where
  "find_hinatas_by_filter sys filter_conditions user_id =
     (case (case tf_date_range filter_conditions of
              None \<Rightarrow> Inr (\<lambda>t. True)
            | Some (start, end_) \<Rightarrow>
                (case bound_condition (\<lambda>t t0. t \<ge> t0) start of
                   Inl e \<Rightarrow> Inl e
                 | Inr from_start \<Rightarrow>
                     (case bound_condition (\<lambda>t t1. t \<le> t1) end_ of
                        Inl e \<Rightarrow> Inl e
                      | Inr to_end \<Rightarrow> Inr (\<lambda>t. from_start t \<and> to_end t)))) of
        Inl e \<Rightarrow> Inl e
      | Inr in_range \<Rightarrow>
          Inr (filter (\<lambda>r. c_user_id r = user_id \<and> \<not> c_is_deleted r
                           \<and> matches_tag_source filter_conditions r
                           \<and> in_range (c_timestamp r))
                 (tbl_hinata_data sys)))"

text \<open>\<^verbatim>\<open>UPDATE hinata_data SET tags = $2 WHERE id = $1\<close>.\<close>

definition update_tags :: "string \<Rightarrow> jvalue \<Rightarrow> system \<Rightarrow> system" where
  "update_tags hinata_id new_tags sys =
     sys \<lparr> tbl_hinata_data :=
             map (\<lambda>r. if c_id r = hinata_id then r \<lparr> c_tags := new_tags \<rparr> else r)
                 (tbl_hinata_data sys) \<rparr>"

text \<open>
  Python sets of JSON values. A list is not hashable; iterating a string yields its
  characters; \<^verbatim>\<open>list(set(xs))\<close> keeps one copy of each element, in an order Python does not
  specify: here, first occurrence.
\<close>

definition hashable :: "jvalue \<Rightarrow> bool" where
  "hashable v = (\<not> is_list v)"

definition py_set_list :: "jvalue list \<Rightarrow> exn + jvalue list" where
  "py_set_list xs = (if list_all hashable xs then Inr (remdups xs)
                     else Inl (TypeError ''unhashable type: list''))"

text \<open>\<^verbatim>\<open>list(set(existing_tags + new_tags))\<close> of \<^verbatim>\<open>_apply_bulk_operation\<close>.\<close>

definition combine_tags :: "jvalue \<Rightarrow> jvalue \<Rightarrow> exn + jvalue" where
  "combine_tags existing_tags new_tags =
     (case (existing_tags, new_tags) of
        (JArr xs, JArr ys) \<Rightarrow>
          (case py_set_list (xs @ ys) of Inl e \<Rightarrow> Inl e | Inr zs \<Rightarrow> Inr (JArr zs))
      | (JStr a, JStr b) \<Rightarrow> Inr (JArr (remdups (map (\<lambda>c. JStr [c]) (a @ b))))
      | _ \<Rightarrow> Inl (TypeError ''unsupported operand types for +''))"

text \<open>One entry of a response's \<^verbatim>\<open>results\<close>, by the handler that makes it.\<close>

datatype op_result =
    CreateResult bool "string option" "exn option"
  | UpdateResult bool string "string list"
  | DeleteResult bool nat nat
  | BulkItemResult string string jvalue
  | BulkItemUnsupported string string
  | BulkItemException string exn

definition op_success :: "op_result \<Rightarrow> bool" where
  "op_success r =
     (case r of CreateResult ok i e \<Rightarrow> ok | UpdateResult ok i fs \<Rightarrow> ok | DeleteResult ok n m \<Rightarrow> ok
              | BulkItemResult i operation tags \<Rightarrow> True | BulkItemUnsupported i operation \<Rightarrow> False
              | BulkItemException i e \<Rightarrow> False)"

text \<open>
  \<^verbatim>\<open>_apply_bulk_operation\<close> on a row as it was fetched by the filter; every exception is
  turned into a failed entry.
\<close>

definition apply_bulk_operation ::
  "system \<Rightarrow> row \<Rightarrow> jvalue option \<Rightarrow> string \<Rightarrow> op_result \<times> system" where
  "apply_bulk_operation sys hinata operation_tags operation_type =
     (let new_tags = (case operation_tags of None \<Rightarrow> JArr [] | Some v \<Rightarrow> v) in
      if operation_type = ''bulk_tag'' then
        (case combine_tags (c_tags hinata) new_tags of
           Inl e \<Rightarrow> (BulkItemException (c_id hinata) e, sys)
         | Inr combined_tags \<Rightarrow>
             (BulkItemResult (c_id hinata) ''bulk_tag'' new_tags,
              update_tags (c_id hinata) combined_tags sys))
      else if operation_type = ''bulk_retag'' then
        (BulkItemResult (c_id hinata) ''bulk_retag'' new_tags,
         update_tags (c_id hinata) new_tags sys)
      else (BulkItemUnsupported (c_id hinata) operation_type, sys))"

fun apply_bulk_loop ::
  "system \<Rightarrow> row list \<Rightarrow> jvalue option \<Rightarrow> string \<Rightarrow> op_result list \<times> system" where
  "apply_bulk_loop sys [] operation_tags operation_type = ([], sys)"
| "apply_bulk_loop sys (hinata # rest) operation_tags operation_type =
     (case apply_bulk_operation sys hinata operation_tags operation_type of
        (result, sys1) \<Rightarrow>
          (case apply_bulk_loop sys1 rest operation_tags operation_type of
             (results, sys2) \<Rightarrow> (result # results, sys2)))"

text \<open>The slices \<^verbatim>\<open>xs[i:i + n]\<close> for \<^verbatim>\<open>i in range(0, len(xs), n)\<close>, for a positive \<open>n\<close>.\<close>

definition batches_of :: "nat \<Rightarrow> 'a list \<Rightarrow> 'a list list" where
  "batches_of n xs = map (\<lambda>k. take n (drop (k * n) xs)) [0 ..< (length xs + n - 1) div n]"

record bulk_result =
  br_dry_run :: bool
  br_estimated_count :: nat
  br_sample_targets :: "row list"
  br_batch_results :: "op_result list"
  br_successful_count :: nat

text \<open>
  \<^verbatim>\<open>_handle_bulk_operation\<close>. A batch size of zero is the \<^verbatim>\<open>ValueError\<close> of \<^verbatim>\<open>range\<close>, a
  negative one an empty range. \<^verbatim>\<open>_apply_bulk_operation\<close> lets no exception out, so the
  handler's own \<^verbatim>\<open>errors\<close> list stays empty.
\<close>

definition handle_bulk_operation ::
  "system \<Rightarrow> bulk_operation option \<Rightarrow> string \<Rightarrow> (exn + bulk_result) \<times> system" where
  "handle_bulk_operation sys bulk user_id =
     (case bulk of
        None \<Rightarrow> (Inl (ValueError ''bulk_operation is required for bulk operations''), sys)
      | Some bulk_op \<Rightarrow>
          (case validate_bulk_operation_safety sys bulk_op user_id of
             (False, errors) \<Rightarrow> (Inl (BulkSafetyCheckFailed errors), sys)
           | (True, errors) \<Rightarrow>
               (case find_hinatas_by_filter sys (bulk_target_filter bulk_op) user_id of
                  Inl e \<Rightarrow> (Inl e, sys)
                | Inr target_hinatas \<Rightarrow>
                    if dry_run bulk_op then
                      (Inr \<lparr> br_dry_run = True, br_estimated_count = length target_hinatas,
                             br_sample_targets = take 5 target_hinatas, br_batch_results = [],
                             br_successful_count = 0 \<rparr>, sys)
                    else if batch_size bulk_op = 0 then
                      (Inl (ValueError ''range() arg 3 must not be zero''), sys)
                    else
                      (case apply_bulk_loop sys
                              (if batch_size bulk_op < 0 then []
                               else concat (batches_of (nat (batch_size bulk_op)) target_hinatas))
                              (bulk_tags bulk_op) (bulk_operation_type bulk_op) of
                         (batch_results, sys1) \<Rightarrow>
                           (Inr \<lparr> br_dry_run = False, br_estimated_count = length target_hinatas,
                                  br_sample_targets = [], br_batch_results = batch_results,
                                  br_successful_count = length (filter op_success batch_results) \<rparr>,
                            sys1)))))"

text \<open>\<^verbatim>\<open>_create_backup\<close>: the user's rows that are not deleted, under the operation's key.\<close>

definition backup_key :: "string \<Rightarrow> string \<Rightarrow> string" where
  "backup_key user_id operation_id = ''backup:'' @ user_id @ '':'' @ operation_id"

definition create_backup :: "system \<Rightarrow> int \<Rightarrow> string \<Rightarrow> string \<Rightarrow> system" where
  "create_backup sys now user_id operation_id =
     sys \<lparr> redis_backup := (redis_backup sys)
             (backup_key user_id operation_id \<mapsto>
                \<lparr> backup_user_id = user_id, backup_operation_id = operation_id,
                  backup_time = now,
                  backup_rows = filter (\<lambda>r. c_user_id r = user_id \<and> \<not> c_is_deleted r)
                                  (tbl_hinata_data sys) \<rparr>) \<rparr>"

text \<open>
  \<^verbatim>\<open>_soft_delete_hinata\<close> and \<^verbatim>\<open>_hard_delete_hinata\<close>: one statement each, keyed by the id
  alone; both answer \<^verbatim>\<open>True\<close> whether or not a row matched.
\<close>

definition soft_delete_hinata :: "system \<Rightarrow> int \<Rightarrow> string \<Rightarrow> bool \<times> system" where
  "soft_delete_hinata sys now hinata_id =
     (True, sys \<lparr> tbl_hinata_data :=
                    map (\<lambda>r. if c_id r = hinata_id
                              then r \<lparr> c_is_deleted := True, c_deleted_at := Some now \<rparr> else r)
                        (tbl_hinata_data sys) \<rparr>)"

definition hard_delete_hinata :: "system \<Rightarrow> string \<Rightarrow> bool \<times> system" where
  "hard_delete_hinata sys hinata_id =
     (True, sys \<lparr> tbl_hinata_data := filter (\<lambda>r. c_id r \<noteq> hinata_id) (tbl_hinata_data sys) \<rparr>)"

fun delete_loop :: "system \<Rightarrow> int \<Rightarrow> bool \<Rightarrow> string list \<Rightarrow> nat \<times> system" where
  "delete_loop sys now soft [] = (0, sys)"
| "delete_loop sys now soft (hinata_id # rest) =
     (case (if soft then soft_delete_hinata sys now hinata_id
            else hard_delete_hinata sys hinata_id) of
        (success, sys1) \<Rightarrow>
          (case delete_loop sys1 now soft rest of
             (deleted_count, sys2) \<Rightarrow> ((if success then 1 else 0) + deleted_count, sys2)))"

record processing_options =
  po_hinata_ids :: "string list option"
  po_soft_delete :: "bool option"

definition handle_delete_operation ::
  "system \<Rightarrow> int \<Rightarrow> processing_options \<Rightarrow> string \<Rightarrow> (exn + op_result) \<times> system" where
  "handle_delete_operation sys now options user_id =
     (let hinata_ids = (case po_hinata_ids options of None \<Rightarrow> [] | Some ids \<Rightarrow> ids);
          soft = (case po_soft_delete options of None \<Rightarrow> True | Some b \<Rightarrow> b) in
      if hinata_ids = [] then
        (Inl (ValueError ''hinata_ids is required for delete operation''), sys)
      else
        (case validate_hinata_ownership sys user_id hinata_ids of
           (False, unauthorized) \<Rightarrow>
             (Inl (HTTPException 403 ''No permission to delete HiNATA: '' unauthorized), sys)
         | (True, unauthorized) \<Rightarrow>
             (case delete_loop sys now soft hinata_ids of
                (deleted_count, sys1) \<Rightarrow>
                  (Inr (DeleteResult (deleted_count > 0) deleted_count (length hinata_ids)),
                   sys1))))"

text \<open>
  \<^verbatim>\<open>dict(row)\<close>: one key per column, named as the column is named; the values are as the
  driver hands them back. (A \<^verbatim>\<open>NULL\<close> in \<^verbatim>\<open>tags\<close> and the JSON text \<^verbatim>\<open>null\<close> are not told
  apart: no operation below does.)
\<close>

definition jnum_opt :: "real option \<Rightarrow> jvalue" where
  "jnum_opt x = (case x of None \<Rightarrow> JNull | Some v \<Rightarrow> JNum v)"

definition dict_of_row :: "row \<Rightarrow> (string \<rightharpoonup> jvalue)" where
  "dict_of_row r = map_of
     [(''id'', JStr (c_id r)), (''user_id'', JStr (c_user_id r)),
      (''timestamp'', JDate (c_timestamp r)), (''source'', JStr (c_source r)),
      (''highlight'', JStr (c_highlight r)), (''note'', JStr (c_note r)),
      (''address'', JStr (c_address r)), (''tags'', JsonText (c_tags r)),
      (''access_level'', JStr (c_access_level r)),
      (''enhanced_tags'', JsonText (JArr (map JStr (c_enhanced_tags r)))),
      (''quality_score'', jnum_opt (c_quality_score r)),
      (''attention_weight'', jnum_opt (c_attention_weight r)),
      (''psp_influence_weight'', jnum_opt (c_psp_influence_weight r)),
      (''is_deleted'', JBool (c_is_deleted r)),
      (''deleted_at'', (case c_deleted_at r of None \<Rightarrow> JNull | Some t \<Rightarrow> JDate t))]"

text \<open>\<^verbatim>\<open>set(x)\<close> for the value under \<^verbatim>\<open>'tag'\<close>, and \<^verbatim>\<open>set(value if isinstance(value, list)
  else [value])\<close>.\<close>

definition elements_of :: "jvalue \<Rightarrow> exn + jvalue list" where
  "elements_of v =
     (case v of
        JArr xs \<Rightarrow> py_set_list xs
      | JStr s' \<Rightarrow> Inr (remdups (map (\<lambda>c. JStr [c]) s'))
      | _ \<Rightarrow> Inl (TypeError ''object is not iterable''))"

definition as_list :: "jvalue \<Rightarrow> exn + jvalue list" where
  "as_list v = (case v of JArr xs \<Rightarrow> py_set_list xs | _ \<Rightarrow> Inr [v])"

text \<open>One round of the loop over \<^verbatim>\<open>update_data.updates.items()\<close>.\<close>

definition apply_update_field ::
  "bool \<Rightarrow> (string \<rightharpoonup> jvalue) \<Rightarrow> string \<times> jvalue \<Rightarrow> exn + (string \<rightharpoonup> jvalue)" where
  "apply_update_field merge_tags updated_data kv =
     (if fst kv = ''tag'' \<and> merge_tags then
        (case elements_of (case updated_data ''tag'' of None \<Rightarrow> JArr [] | Some v \<Rightarrow> v) of
           Inl e \<Rightarrow> Inl e
         | Inr existing_tags \<Rightarrow>
             (case as_list (snd kv) of
                Inl e \<Rightarrow> Inl e
              | Inr new_tags \<Rightarrow>
                  Inr (updated_data(''tag'' \<mapsto> JArr (remdups (existing_tags @ new_tags))))))
      else Inr (updated_data(fst kv \<mapsto> snd kv)))"

fun apply_updates ::
  "bool \<Rightarrow> (string \<rightharpoonup> jvalue) \<Rightarrow> (string \<times> jvalue) list \<Rightarrow> exn + (string \<rightharpoonup> jvalue)" where
  "apply_updates merge_tags updated_data [] = Inr updated_data"
| "apply_updates merge_tags updated_data (kv # rest) =
     (case apply_update_field merge_tags updated_data kv of
        Inl e \<Rightarrow> Inl e
      | Inr updated_data' \<Rightarrow> apply_updates merge_tags updated_data' rest)"

text \<open>
  \<^verbatim>\<open>_update_hinata_in_storage\<close>. The seven arguments are read from the dictionary under the
  keys \<^verbatim>\<open>id, highlight, note, address, tag, access, timestamp\<close>; the fifth is made by
  \<^verbatim>\<open>json.dumps\<close>. A missing key, a value that \<^verbatim>\<open>json.dumps\<close> cannot serialize, or a value
  the driver refuses for the column is an exception, and every exception is answered with
  \<^verbatim>\<open>False\<close>. The statement is keyed by the \<^verbatim>\<open>id\<close> of the dictionary.
\<close>

definition update_statement ::
  "string \<Rightarrow> string \<Rightarrow> string \<Rightarrow> string \<Rightarrow> jvalue \<Rightarrow> string \<Rightarrow> int \<Rightarrow> row \<Rightarrow> row" where
  "update_statement i hl nt addr tg acc ts r =
     (if c_id r = i
      then r \<lparr> c_highlight := hl, c_note := nt, c_address := addr, c_tags := tg,
               c_access_level := acc, c_timestamp := ts \<rparr>
      else r)"

text \<open>
  An argument for a text column: a string of the row or of the request. An argument for the
  timestamp column: a \<^verbatim>\<open>datetime\<close>; a string, also one that holds a timestamp text, is
  refused. What \<^verbatim>\<open>json.dumps\<close> serializes: anything that holds no \<^verbatim>\<open>datetime\<close>.
\<close>

definition text_arg :: "(string \<rightharpoonup> jvalue) \<Rightarrow> string \<Rightarrow> string option" where
  "text_arg data k = (case data k of Some (JStr s') \<Rightarrow> Some s' | _ \<Rightarrow> None)"

definition time_arg :: "(string \<rightharpoonup> jvalue) \<Rightarrow> string \<Rightarrow> int option" where
  "time_arg data k = (case data k of Some (JDate t) \<Rightarrow> Some t | _ \<Rightarrow> None)"

fun serializable :: "jvalue \<Rightarrow> bool" where
  "serializable (JDate t) = False"
| "serializable (JArr xs) = list_all serializable xs"
| "serializable v = True"

definition json_arg :: "(string \<rightharpoonup> jvalue) \<Rightarrow> string \<Rightarrow> jvalue option" where
  "json_arg data k = (case data k of Some v \<Rightarrow> (if serializable v then Some v else None)
                                   | None \<Rightarrow> None)"

definition update_hinata_in_storage :: "system \<Rightarrow> (string \<rightharpoonup> jvalue) \<Rightarrow> bool \<times> system" where
  "update_hinata_in_storage sys data =
     (case (text_arg data ''id'', text_arg data ''highlight'', text_arg data ''note'',
            text_arg data ''address'', json_arg data ''tag'', text_arg data ''access'',
            time_arg data ''timestamp'') of
        (Some i, Some hl, Some nt, Some addr, Some tg, Some acc, Some ts) \<Rightarrow>
          (True, sys \<lparr> tbl_hinata_data :=
                          map (update_statement i hl nt addr tg acc ts) (tbl_hinata_data sys) \<rparr>)
      | _ \<Rightarrow> (False, sys))"

record update_model =
  um_id :: string
  um_updates :: "(string \<times> jvalue) list"
  um_merge_tags :: bool

definition get_hinata_by_id :: "system \<Rightarrow> string \<Rightarrow> row option" where
  "get_hinata_by_id sys hinata_id = find (\<lambda>r. c_id r = hinata_id) (tbl_hinata_data sys)"

text \<open>
  \<^verbatim>\<open>_handle_update_operation\<close>: the ownership check, the existing row as a dictionary, the
  patch applied key by key, then \<^verbatim>\<open>updated_data['timestamp']\<close> set to
  \<^verbatim>\<open>datetime.now(timezone.utc).isoformat()\<close>, a string, and the dictionary handed to
  \<^verbatim>\<open>_update_hinata_in_storage\<close>.
\<close>

definition handle_update_operation ::
  "system \<Rightarrow> int \<Rightarrow> update_model option \<Rightarrow> string \<Rightarrow> (exn + op_result) \<times> system" where
  "handle_update_operation sys now update user_id =
     (case update of
        None \<Rightarrow> (Inl (ValueError ''update_data is required for update operation''), sys)
      | Some update_data \<Rightarrow>
          (case validate_hinata_ownership sys user_id [um_id update_data] of
             (False, unauthorized) \<Rightarrow>
               (Inl (HTTPException 403 ''No permission to modify HiNATA: '' [um_id update_data]),
                sys)
           | (True, unauthorized) \<Rightarrow>
               (case get_hinata_by_id sys (um_id update_data) of
                  None \<Rightarrow> (Inl (ValueError (''HiNATA not found: '' @ um_id update_data)), sys)
                | Some existing_data \<Rightarrow>
                    (case apply_updates (um_merge_tags update_data) (dict_of_row existing_data)
                            (um_updates update_data) of
                       Inl e \<Rightarrow> (Inl e, sys)
                     | Inr updated_data \<Rightarrow>
                         (case update_hinata_in_storage sys
                                 (updated_data(''timestamp'' \<mapsto> JTime (Aware now))) of
                            (success, sys1) \<Rightarrow>
                              (Inr (UpdateResult success (um_id update_data)
                                      (map fst (um_updates update_data))), sys1))))))"

text \<open>\<^verbatim>\<open>HiNATAWriteModel\<close>, and \<^verbatim>\<open>_handle_create_operation\<close>. The new id is made from the
  clock and a random number: here it is given.\<close>

record write_model =
  wm_timestamp :: "tstamp option"
  wm_source :: string
  wm_highlight :: string
  wm_note :: string
  wm_address :: string
  wm_tag :: "string list"
  wm_access :: string
  wm_raw_data :: "(string \<times> jvalue) list"

definition handle_create_operation ::
  "system \<Rightarrow> int \<Rightarrow> pipeline \<Rightarrow> string \<Rightarrow> write_model option \<Rightarrow> string
     \<Rightarrow> (exn + op_result) \<times> system" where
  "handle_create_operation sys now pl hinata_id model user_id =
     (case model of
        None \<Rightarrow> (Inl (ValueError ''hinata_data is required for create operation''), sys)
      | Some m \<Rightarrow>
          (case process_hinata_batch sys now pl
                  [\<lparr> d_id = Some hinata_id,
                     d_timestamp = Some (case wm_timestamp m of None \<Rightarrow> Aware now | Some ts \<Rightarrow> ts),
                     d_source = Some (wm_source m), d_highlight = Some (wm_highlight m),
                     d_note = Some (wm_note m), d_address = Some (wm_address m),
                     d_tag = Some (JArr (map JStr (wm_tag m))), d_access = Some (wm_access m),
                     d_raw_data = Some (wm_raw_data m), d_extra_keys = [] \<rparr>] user_id of
             (results, sys1) \<Rightarrow>
               (case results of
                  [] \<Rightarrow> (Inr (CreateResult False None None), sys1)
                | result # others \<Rightarrow>
                    if status result = COMPLETED
                    then (Inr (CreateResult True (Some hinata_id) None), sys1)
                    else (Inr (CreateResult False None (error_message result)), sys1))))"

record write_request =
  req_user_id :: string
  req_operation_type :: string
  req_hinata_data :: "write_model option"
  req_update_data :: "update_model option"
  req_bulk_operation :: "bulk_operation option"
  req_processing_options :: processing_options
  req_auto_backup :: bool

record write_context =
  ctx_user_id :: string
  ctx_operation_id :: string

record write_response =
  resp_status :: string
  resp_operation_id :: string
  resp_affected_count :: nat
  resp_results :: "op_result list"
  resp_errors :: "exn list"

definition error_response :: "write_context \<Rightarrow> exn \<Rightarrow> write_response" where
  "error_response context e =
     \<lparr> resp_status = ''error'', resp_operation_id = ctx_operation_id context,
       resp_affected_count = 0, resp_results = [], resp_errors = [e] \<rparr>"

definition ok_response :: "write_context \<Rightarrow> nat \<Rightarrow> op_result list \<Rightarrow> write_response" where
  "ok_response context affected results =
     \<lparr> resp_status = (if affected > 0 then ''success'' else ''failed''),
       resp_operation_id = ctx_operation_id context,
       resp_affected_count = affected, resp_results = results, resp_errors = [] \<rparr>"

text \<open>Step 3 of \<^verbatim>\<open>process_write_request\<close>: the dispatch on the operation.\<close>

definition execute_operation ::
  "system \<Rightarrow> int \<Rightarrow> pipeline \<Rightarrow> string \<Rightarrow> HiNATAWriteOperation \<Rightarrow> write_request \<Rightarrow> write_context
     \<Rightarrow> (exn + nat \<times> op_result list) \<times> system" where
  "execute_operation sys now pl new_id operation_type request context =
     (if operation_type = W_CREATE then
        (case handle_create_operation sys now pl new_id (req_hinata_data request)
                (ctx_user_id context) of
           (Inl e, sys1) \<Rightarrow> (Inl e, sys1)
         | (Inr result, sys1) \<Rightarrow> (Inr (if op_success result then 1 else 0, [result]), sys1))
      else if operation_type = W_UPDATE then
        (case handle_update_operation sys now (req_update_data request) (ctx_user_id context) of
           (Inl e, sys1) \<Rightarrow> (Inl e, sys1)
         | (Inr result, sys1) \<Rightarrow> (Inr (if op_success result then 1 else 0, [result]), sys1))
      else if operation_type = W_DELETE then
        (case handle_delete_operation sys now (req_processing_options request)
                (ctx_user_id context) of
           (Inl e, sys1) \<Rightarrow> (Inl e, sys1)
         | (Inr result, sys1) \<Rightarrow>
             (Inr (case result of DeleteResult ok deleted_count requested \<Rightarrow> deleted_count | _ \<Rightarrow> 0,
                   [result]), sys1))
      else if operation_type \<in> {W_BATCH_UPDATE, W_BULK_TAG, W_BULK_RETAG} then
        (case handle_bulk_operation sys (req_bulk_operation request) (ctx_user_id context) of
           (Inl e, sys1) \<Rightarrow> (Inl e, sys1)
         | (Inr result, sys1) \<Rightarrow>
             (Inr (br_successful_count result, br_batch_results result), sys1))
      else (Inl (ValueError ''Unsupported operation type''), sys))"

text \<open>
  \<^verbatim>\<open>HiNATAWriteProcessor.process_write_request\<close>: 1. the permission check, 2. the backup
  (when \<^verbatim>\<open>auto_backup\<close>), 3. the operation. The \<^verbatim>\<open>except Exception\<close> around all three answers
  with status \<^verbatim>\<open>error\<close>; what was written before the exception stays written.
\<close>

definition process_write_request ::
  "system \<Rightarrow> int \<Rightarrow> pipeline \<Rightarrow> string \<Rightarrow> write_request \<Rightarrow> write_context
     \<Rightarrow> write_response \<times> system" where
  "process_write_request sys now pl new_id request context =
     (case write_operation_of (req_operation_type request) of
        None \<Rightarrow> (error_response context (ValueError ''is not a valid HiNATAWriteOperation''), sys)
      | Some operation_type \<Rightarrow>
          if \<not> validator_validate_write_permission sys (req_user_id request) operation_type
          then (error_response context
                  (HTTPException 403 ''Insufficient permissions for this operation'' []), sys)
          else
            (let sys1 = (if req_auto_backup request
                         then create_backup sys now (req_user_id request) (ctx_operation_id context)
                         else sys) in
             case execute_operation sys1 now pl new_id operation_type request context of
               (Inl e, sys2) \<Rightarrow> (error_response context e, sys2)
             | (Inr (affected_count, results), sys2) \<Rightarrow>
                 (ok_response context affected_count results, sys2)))"


subsection \<open>Intent-to-profile matcher (\<^verbatim>\<open>PSPEngine.PSPMatcher\<close>)\<close>

datatype PSPComponentType =
    CORE_INTEREST | CURRENT_GOAL | LEARNING_PREFERENCE | COMMUNICATION_STYLE
  | WORK_CONTEXT | PERSONAL_VALUE

datatype PSPUpdateAction = CREATE | UPDATE | STRENGTHEN | WEAKEN | MERGE | SPLIT | ARCHIVE

text \<open>The fields of a component and of an intent that matching reads or hands on.\<close>

record PSPComponent =
  component_id :: string
  component_type :: PSPComponentType
  description :: string
  embedding :: "real list"
  confidence :: real
  total_attention_weight :: real
  normalized_weight :: real
  priority :: string
  activation_threshold :: real

record UserIntent =
  intent_id :: string
  intent_hinata_id :: string
  intent_description :: string
  intent_embedding :: "real list"
  intent_confidence :: real
  intent_attention_weight :: real
  intent_type :: PSPComponentType
  intent_source_app :: string

text \<open>The four memory layers are dictionaries; iteration follows insertion order.\<close>

record PSPContext =
  psp_user_id :: string
  core_memory :: "(string \<times> PSPComponent) list"
  working_memory :: "(string \<times> PSPComponent) list"
  learning_memory :: "(string \<times> PSPComponent) list"
  context_memory :: "(string \<times> PSPComponent) list"

definition get_target_memory :: "PSPComponentType \<Rightarrow> PSPContext \<Rightarrow> (string \<times> PSPComponent) list" where
  "get_target_memory ty psp =
     (if ty \<in> {CORE_INTEREST, PERSONAL_VALUE} then core_memory psp
      else if ty \<in> {CURRENT_GOAL, WORK_CONTEXT} then working_memory psp
      else if ty = LEARNING_PREFERENCE then learning_memory psp
      else context_memory psp)"

text \<open>
  \<^verbatim>\<open>sklearn.metrics.pairwise.cosine_similarity\<close> on two row vectors: each vector is divided by
  its Euclidean norm (a zero vector is left as it is), then the dot product is taken; vectors
  of different lengths raise \<^verbatim>\<open>ValueError\<close>.
\<close>

definition dot :: "real list \<Rightarrow> real list \<Rightarrow> real" where
  "dot xs ys = sum_list (map (\<lambda>(x, y). x * y) (zip xs ys))"

definition l2_normalize :: "real list \<Rightarrow> real list" where
  "l2_normalize xs =
     (let n = sqrt (dot xs xs) in map (\<lambda>x. x / (if n = 0 then 1 else n)) xs)"

definition cosine_similarity :: "real list \<Rightarrow> real list \<Rightarrow> exn + real" where
  "cosine_similarity xs ys =
     (if length xs \<noteq> length ys then Inl (ValueError ''Incompatible dimension for X and Y matrices'')
      else Inr (dot (l2_normalize xs) (l2_normalize ys)))"

definition calculate_similarity :: "real list \<Rightarrow> real list \<Rightarrow> exn + real" where
  "calculate_similarity embedding1 embedding2 =
     (if embedding1 = [] \<or> embedding2 = [] then Inr 0.0
      else (case cosine_similarity embedding1 embedding2 of
              Inl e \<Rightarrow> Inl e
            | Inr similarity \<Rightarrow> Inr (max 0.0 similarity)))"

text \<open>
  The loop of \<^verbatim>\<open>_find_best_component_match\<close> over \<^verbatim>\<open>target_memory.items()\<close>, with its two
  loop variables \<^verbatim>\<open>best_match\<close> and \<^verbatim>\<open>best_similarity\<close>.
\<close>

fun find_best_loop ::
  "real \<Rightarrow> real list \<Rightarrow> (string \<times> PSPComponent) list \<Rightarrow> (PSPComponent \<times> real) option \<Rightarrow> real
     \<Rightarrow> exn + (PSPComponent \<times> real) option" where
  "find_best_loop similarity_threshold emb [] best_match best_similarity = Inr best_match"
| "find_best_loop similarity_threshold emb ((cid, component) # rest) best_match best_similarity =
     (if embedding component = []
      then find_best_loop similarity_threshold emb rest best_match best_similarity
      else (case calculate_similarity emb (embedding component) of
              Inl e \<Rightarrow> Inl e
            | Inr similarity \<Rightarrow>
                if similarity > best_similarity \<and> similarity > similarity_threshold
                then find_best_loop similarity_threshold emb rest
                       (Some (component, similarity)) similarity
                else find_best_loop similarity_threshold emb rest best_match best_similarity))"

definition find_best_component_match ::
  "real \<Rightarrow> UserIntent \<Rightarrow> PSPContext \<Rightarrow> exn + (PSPComponent \<times> real) option" where
  "find_best_component_match similarity_threshold intent psp =
     (if intent_embedding intent = [] then Inr None
      else find_best_loop similarity_threshold (intent_embedding intent)
             (get_target_memory (intent_type intent) psp) None 0.0)"

definition determine_update_action :: "real \<Rightarrow> PSPUpdateAction" where
  "determine_update_action similarity =
     (if similarity > 0.9 then STRENGTHEN
      else if similarity > 0.8 then UPDATE
      else if similarity > 0.7 then MERGE
      else CREATE)"

definition calculate_merge_strength :: "real \<Rightarrow> real" where
  "calculate_merge_strength attention_weight =
     (if attention_weight > 0.8 then 1.0
      else if attention_weight > 0.6 then 0.8
      else if attention_weight > 0.4 then 0.6
      else 0.3)"

record match_info =
  match_intent :: UserIntent
  match_psp_component :: "PSPComponent option"
  match_similarity :: real
  match_action :: PSPUpdateAction
  match_merge_strength :: real

definition match_intent_with_psp :: "real \<Rightarrow> UserIntent \<Rightarrow> PSPContext \<Rightarrow> exn + match_info" where
  "match_intent_with_psp similarity_threshold intent current_psp =
     (case find_best_component_match similarity_threshold intent current_psp of
        Inl e \<Rightarrow> Inl e
      | Inr (Some (component, similarity)) \<Rightarrow>
          Inr \<lparr> match_intent = intent, match_psp_component = Some component,
                match_similarity = similarity,
                match_action = determine_update_action similarity,
                match_merge_strength = calculate_merge_strength (intent_attention_weight intent) \<rparr>
      | Inr None \<Rightarrow>
          Inr \<lparr> match_intent = intent, match_psp_component = None, match_similarity = 0.0,
                match_action = CREATE, match_merge_strength = 1.0 \<rparr>)"

fun match_intents_with_psp :: "real \<Rightarrow> UserIntent list \<Rightarrow> PSPContext \<Rightarrow> exn + match_info list" where
  "match_intents_with_psp similarity_threshold [] current_psp = Inr []"
| "match_intents_with_psp similarity_threshold (intent # intents) current_psp =
     (case match_intent_with_psp similarity_threshold intent current_psp of
        Inl e \<Rightarrow> Inl e
      | Inr m \<Rightarrow>
          (case match_intents_with_psp similarity_threshold intents current_psp of
             Inl e \<Rightarrow> Inl e
           | Inr ms \<Rightarrow> Inr (m # ms)))"

text \<open>The default of the constructor parameter \<^verbatim>\<open>similarity_threshold\<close>.\<close>

definition default_similarity_threshold :: real where
  "default_similarity_threshold = 0.7"

subsubsection \<open>Sample inputs: a core-interest intent and a profile holding one personal value\<close>

definition value_component :: PSPComponent where
  "value_component =
     \<lparr> component_id = ''psp_1'', component_type = PERSONAL_VALUE,
       description = ''values careful work'', embedding = [1, 0], confidence = 0.5,
       total_attention_weight = 0.4, normalized_weight = 1, priority = ''high'',
       activation_threshold = 0.5 \<rparr>"

definition interest_intent :: UserIntent where
  "interest_intent =
     \<lparr> intent_id = ''intent_1'', intent_hinata_id = ''h1'',
       intent_description = ''interest in validation'', intent_embedding = [1, 0],
       intent_confidence = 0.8, intent_attention_weight = 0.9, intent_type = CORE_INTEREST,
       intent_source_app = ''browser_extension'' \<rparr>"

definition value_only_psp :: PSPContext where
  "value_only_psp =
     \<lparr> psp_user_id = ''user_123'', core_memory = [(''psp_1'', value_component)],
       working_memory = [], learning_memory = [], context_memory = [] \<rparr>"

subsection \<open>Sample inputs\<close>

text \<open>
  Concrete records, stores and requests at which Part II evaluates the program. A record
  \<open>h1\<close> with all three weights 0.5, created at instant 0:
\<close>

definition sample_doc :: hinata where
  "sample_doc =
     \<lparr> h_id = ''h1'', h_timestamp = Aware 0, h_source = ''browser_extension'',
       h_highlight = ''Machine learning'', h_note = ''note'', h_address = ''https://example.com'',
       h_tag = [''ml''], h_access = ''private'', h_raw_data = [], h_enhanced_tags = None,
       h_recommended_highlights = None, h_semantic_analysis = None,
       h_attention_weight = Some 0.5, h_quality_score = Some 0.5,
       h_psp_influence_weight = Some 0.5, h_embedding_vector = None,
       h_processing_metadata = None \<rparr>"

text \<open>An empty installation, with a cache lifetime of one hour.\<close>

definition empty_system :: system where
  "empty_system =
     \<lparr> redis_full = Map.empty, redis_user_hot = (\<lambda>u. []), redis_timeline = (\<lambda>u. []),
       redis_backup = Map.empty, tbl_hinata_data = [], tbl_hinata_index = [],
       tbl_user_permissions = Map.empty, cold_files = [], cache = Map.empty, cache_ttl = 3600 \<rparr>"

text \<open>
  A row of the table \<^verbatim>\<open>hinata_data\<close> for the record \<open>h1\<close> of alice, with the given weights;
  the row of an index entry for it; an installation whose warm tier holds the record with
  influence 0.7; and that row after a soft delete at instant 864000.
\<close>

definition sample_row :: "string \<Rightarrow> string \<Rightarrow> real option \<Rightarrow> row" where
  "sample_row hinata_id user_id weight =
     \<lparr> c_id = hinata_id, c_user_id = user_id, c_timestamp = 0, c_source = ''browser_extension'',
       c_highlight = ''Machine learning'', c_note = ''note'', c_address = ''https://example.com'',
       c_tags = JArr [JStr ''ml''], c_access_level = ''private'', c_enhanced_tags = [],
       c_quality_score = Some 0.5, c_attention_weight = Some 0.5,
       c_psp_influence_weight = weight, c_processing_metadata = None,
       c_is_deleted = False, c_deleted_at = None \<rparr>"

definition warm_row :: row where
  "warm_row = sample_row ''h1'' ''alice'' (Some 0.7)"

definition warm_index_row :: index_row where
  "warm_index_row =
     \<lparr> ix_hinata_id = ''h1'', ix_user_id = ''alice'', ix_timestamp = 0,
       ix_source = ''browser_extension'', ix_psp_influence_weight = 0.7,
       ix_attention_weight = 0.5, ix_quality_score = 0.5, ix_storage_tier = ''warm'',
       ix_tags = [''ml''] \<rparr>"

definition warm_system :: system where
  "warm_system =
     empty_system \<lparr> tbl_hinata_data := [warm_row], tbl_hinata_index := [warm_index_row] \<rparr>"

definition deleted_row :: row where
  "deleted_row = warm_row \<lparr> c_is_deleted := True, c_deleted_at := Some 864000 \<rparr>"

definition alice_query :: RetrievalQuery where
  "alice_query = \<lparr> query_user_id = ''alice'', query_time_range = None, query_limit = 10,
                   min_relevance_score = 0.5 \<rparr>"

text \<open>A cold record: influence 0.2, stored forty days after its creation.\<close>

definition cold_doc :: hinata where
  "cold_doc = sample_doc \<lparr> h_psp_influence_weight := Some 0.2 \<rparr>"

text \<open>A cached admin profile, with and without the demand for 2FA, and a hard delete at
  noon.\<close>

definition admin_profile :: "bool \<Rightarrow> UserPermissionProfile" where
  "admin_profile demand_2fa =
     \<lparr> profile_user_id = ''root'', permission_level = ADMIN,
       allowed_operations = {''create'', ''update'', ''delete''},
       daily_operation_limit = 100, batch_size_limit = 50, require_2fa = demand_2fa,
       valid_from = TimeText (Aware 0), valid_until = None,
       allowed_sources = None, forbidden_operations = None \<rparr>"

definition admin_store :: "bool \<Rightarrow> (string \<rightharpoonup> string) \<Rightarrow> perm_store" where
  "admin_store demand_2fa sessions =
     \<lparr> profiles = [''root'' \<mapsto> admin_profile demand_2fa], operation_audit_logs = [],
       twofa_verified = sessions \<rparr>"

definition hard_delete_data :: operation_data where
  "hard_delete_data =
     \<lparr> estimated_affected_count = None, soft_delete = Some False, target_sources = None \<rparr>"

text \<open>
  A pipeline whose stages and scorers answer with constants, the same pipeline with an
  embedding model that raises, and a submitted record with the given tags.
\<close>

definition plain_pipeline :: pipeline where
  "plain_pipeline =
     \<lparr> generate_semantic_tags = (\<lambda>h. Inr [''learning'']),
       recommend_highlights = (\<lambda>h. Inr []),
       analyze_semantics = (\<lambda>h. Inr \<lparr> main_topics = [], sentiment = ''neutral'',
                                        complexity_level = ''low'', key_concepts = [] \<rparr>),
       generate_embedding = (\<lambda>h. Inr [0, 1]),
       assess_quality = (\<lambda>h. \<lparr> content_depth = 0.5, information_value = 0.5,
                                 user_engagement = 0.5, complexity = 0.5, novelty = 0.5 \<rparr>),
       measure_attention = (\<lambda>history h u. Inr \<lparr> highlight_frequency = 0, note_density = 0,
                                 address_revisit = 0, time_investment = 0,
                                 interaction_depth = ''low'' \<rparr>) \<rparr>"

definition failing_pipeline :: pipeline where
  "failing_pipeline =
     plain_pipeline \<lparr> generate_embedding := (\<lambda>h. Inl (ValueError ''embedding model unavailable'')) \<rparr>"

definition submitted :: "string list \<Rightarrow> hinata_dict" where
  "submitted tags =
     \<lparr> d_id = Some ''h1'', d_timestamp = Some (Aware 0), d_source = Some ''browser_extension'',
       d_highlight = Some ''Machine learning'', d_note = Some ''note'',
       d_address = Some ''https://example.com'', d_tag = Some (JArr (map JStr tags)),
       d_access = Some ''private'', d_raw_data = None, d_extra_keys = [] \<rparr>"

text \<open>The record that \<open>submitted tags\<close> becomes after normalization.\<close>

definition normalized :: "string list \<Rightarrow> hinata" where
  "normalized tags =
     \<lparr> h_id = ''h1'', h_timestamp = Aware 0, h_source = ''browser_extension'',
       h_highlight = ''Machine learning'', h_note = ''note'', h_address = ''https://example.com'',
       h_tag = clean_tags tags, h_access = ''private'', h_raw_data = [], h_enhanced_tags = None,
       h_recommended_highlights = None, h_semantic_analysis = None,
       h_attention_weight = None, h_quality_score = None,
       h_psp_influence_weight = None, h_embedding_vector = None,
       h_processing_metadata = None \<rparr>"

text \<open>
  An installation with the rows \<open>h1\<close> of alice and \<open>h2\<close> of bob, in which alice holds every
  write permission; requests of alice against it.
\<close>

definition two_user_system :: system where
  "two_user_system =
     empty_system \<lparr> tbl_hinata_data := [sample_row ''h1'' ''alice'' (Some 0.5),
                                         sample_row ''h2'' ''bob'' (Some 0.5)],
                    tbl_user_permissions :=
                      [''alice'' \<mapsto> [''hinata_write'', ''hinata_delete'', ''hinata_bulk_modify'']] \<rparr>"

definition bulk_tag_request :: "int \<Rightarrow> bool \<Rightarrow> string \<Rightarrow> write_request" where
  "bulk_tag_request n with_backup new_tag =
     \<lparr> req_user_id = ''alice'', req_operation_type = ''bulk_tag'', req_hinata_data = None,
       req_update_data = None,
       req_bulk_operation = Some
         \<lparr> bulk_operation_type = ''bulk_tag'',
           bulk_target_filter = \<lparr> tf_tag = Some ''ml'', tf_source = None, tf_date_range = None,
                                  tf_other_keys = [] \<rparr>,
           bulk_tags = Some (JArr [JStr new_tag]), dry_run = False, batch_size = n \<rparr>,
       req_processing_options = \<lparr> po_hinata_ids = None, po_soft_delete = None \<rparr>,
       req_auto_backup = with_backup \<rparr>"

definition alice_context :: write_context where
  "alice_context = \<lparr> ctx_user_id = ''alice'', ctx_operation_id = ''write_1'' \<rparr>"




section \<open>Part II: properties\<close>

subsection \<open>Influence weight\<close>

lemma influence_unfold:
  "calculate_psp_influence_weight q a = 0.05 + 0.95 * (0.6 * q + 0.4 * a)"
  by (simp add: calculate_psp_influence_weight_def Let_def algebra_simps)

lemma influence_lower: "0 \<le> q \<Longrightarrow> 0 \<le> a \<Longrightarrow> 0.05 \<le> calculate_psp_influence_weight q a"
  unfolding influence_unfold by (simp add: field_simps)

lemma influence_upper: "q \<le> 1 \<Longrightarrow> a \<le> 1 \<Longrightarrow> calculate_psp_influence_weight q a \<le> 1"
  unfolding influence_unfold by (simp add: field_simps)

text \<open>
  Claim C9. For quality and attention in \<open>[0,1]\<close> the influence assigned by the processor equals
  \<open>clamp(0.05, 1.0, 0.05 + 0.95 * (0.6 * quality + 0.4 * attention))\<close>, and therefore lies in
  \<open>[0.05, 1.0]\<close>. The code does not clamp: on that domain the affine expression never leaves
  the interval, so the clamp of the specification is the identity.
\<close>

theorem influence_is_clamped_formula:
  assumes "0 \<le> q" "q \<le> 1" "0 \<le> a" "a \<le> 1"
  shows "calculate_psp_influence_weight q a = spec_influence q a
       \<and> 0.05 \<le> calculate_psp_influence_weight q a
       \<and> calculate_psp_influence_weight q a \<le> 1.0"
proof -
  have lo: "0.05 \<le> calculate_psp_influence_weight q a"
    using assms influence_lower by blast
  have hi: "calculate_psp_influence_weight q a \<le> 1"
    using assms influence_upper by blast
  have "spec_influence q a = calculate_psp_influence_weight q a"
    using lo hi unfolding spec_influence_def spec_clamp_def influence_unfold
    by (simp add: max_def min_def)
  then show ?thesis using lo hi by simp
qed

theorem influence_is_clamped_formula_witness:
  "calculate_psp_influence_weight (1/2) (1/4) = spec_influence (1/2) (1/4)
   \<and> 0.05 \<le> calculate_psp_influence_weight (1/2) (1/4)
   \<and> calculate_psp_influence_weight (1/2) (1/4) \<le> 1.0
   \<and> calculate_psp_influence_weight (1/2) (1/4) = 0.43"
  using influence_is_clamped_formula [of "1/2" "1/4"]
  by (simp add: calculate_psp_influence_weight_def Let_def)

text \<open>
  The two scores the processor feeds into the influence weight lie in \<open>[0,1]\<close>: the quality
  score is clamped, and the attention weight is a non-negative product cut off at 1. So the
  influence of every record the pipeline scores lies in \<open>[0.05, 1]\<close>.
\<close>

lemma quality_score_unit:
  "0 \<le> calculate_quality_score f \<and> calculate_quality_score f \<le> 1"
  by (simp add: calculate_quality_score_def Let_def)

lemma normalizers_nonneg:
  "0 \<le> normalize_frequency_weight a" "0 \<le> normalize_density_weight b"
  "0 \<le> normalize_revisit_weight c" "0 \<le> normalize_time_weight d" "0 \<le> get_depth_multiplier e"
  by (simp_all add: normalize_frequency_weight_def normalize_density_weight_def
      normalize_revisit_weight_def normalize_time_weight_def get_depth_multiplier_def)

lemma attention_weight_unit:
  "0 \<le> calculate_attention_weight m \<and> calculate_attention_weight m \<le> 1"
proof -
  have "0 \<le> (normalize_frequency_weight (highlight_frequency m) * 0.30
            + normalize_density_weight (note_density m) * 0.25
            + normalize_revisit_weight (address_revisit m) * 0.30
            + normalize_time_weight (time_investment m) * 0.15)
            * get_depth_multiplier (interaction_depth m)"
    by (intro mult_nonneg_nonneg add_nonneg_nonneg normalizers_nonneg) simp_all
  then show ?thesis by (simp add: calculate_attention_weight_def Let_def)
qed

lemma pipeline_influence_bounds:
  "0.05 \<le> calculate_psp_influence_weight (calculate_quality_score f) (calculate_attention_weight m)
   \<and> calculate_psp_influence_weight (calculate_quality_score f) (calculate_attention_weight m) \<le> 1"
  using quality_score_unit [of f] attention_weight_unit [of m]
    influence_lower [of "calculate_quality_score f" "calculate_attention_weight m"]
    influence_upper [of "calculate_quality_score f" "calculate_attention_weight m"]
  by blast

subsection \<open>Relevance score\<close>

text \<open>
  When \<^verbatim>\<open>0.95 ** days_ago\<close> overflows. For a negative exponent the power is a power of
  \<open>20/19\<close>; bounds on its powers, by repeated squaring with dyadic bounds, place \<open>2 ^ 1024\<close>
  between the 13837th and the 13838th.
\<close>

lemma sq_lower: "a \<le> r ^ n \<Longrightarrow> 0 \<le> a \<Longrightarrow> b \<le> a * a \<Longrightarrow> b \<le> (r::real) ^ (2 * n)"
proof -
  assume a: "a \<le> r ^ n" "0 \<le> a" "b \<le> a * a"
  have "a * a \<le> r ^ n * r ^ n" using a by (intro mult_mono) auto
  also have "\<dots> = r ^ (2 * n)" by (simp add: power_add [symmetric] mult_2)
  finally show ?thesis using a(3) by linarith
qed

lemma sq_upper: "r ^ n \<le> a \<Longrightarrow> 0 \<le> r \<Longrightarrow> a * a \<le> b \<Longrightarrow> (r::real) ^ (2 * n) \<le> b"
proof -
  assume a: "r ^ n \<le> a" "0 \<le> r" "a * a \<le> b"
  have "r ^ (2 * n) = r ^ n * r ^ n" by (simp add: power_add [symmetric] mult_2)
  also have "\<dots> \<le> a * a"
  proof -
    have "0 \<le> r ^ n" using a(2) by simp
    then show ?thesis using a(1) by (intro mult_mono) auto
  qed
  finally show ?thesis using a(3) by linarith
qed

lemma mul_lower:
  "a \<le> r ^ m \<Longrightarrow> c \<le> r ^ n \<Longrightarrow> 0 \<le> a \<Longrightarrow> 0 \<le> c \<Longrightarrow> b \<le> a * c \<Longrightarrow> b \<le> (r::real) ^ (m + n)"
proof -
  assume a: "a \<le> r ^ m" "c \<le> r ^ n" "0 \<le> a" "0 \<le> c" "b \<le> a * c"
  have "a * c \<le> r ^ m * r ^ n" using a by (intro mult_mono) auto
  then show ?thesis using a(5) by (simp add: power_add)
qed

lemma mul_upper:
  "r ^ m \<le> a \<Longrightarrow> r ^ n \<le> c \<Longrightarrow> 0 \<le> r \<Longrightarrow> a * c \<le> b \<Longrightarrow> (r::real) ^ (m + n) \<le> b"
proof -
  assume a: "r ^ m \<le> a" "r ^ n \<le> c" "0 \<le> r" "a * c \<le> b"
  have "0 \<le> r ^ m" "0 \<le> r ^ n" using a(3) by simp_all
  then have "r ^ m * r ^ n \<le> a * c" using a(1,2) by (intro mult_mono) auto
  then show ?thesis using a(4) by (simp add: power_add)
qed

lemma pow_13838_lower:
  fixes r :: real
  assumes r1: "20 / 19 \<le> r ^ 1"
  shows "1114895800147 * 2 ^ 984 \<le> r ^ 13838"
proof -
  have p2: "4873181729755 / 2 ^ 42 \<le> r ^ 2"
    using sq_lower [OF r1, of "4873181729755 / 2 ^ 42"] by simp
  have p4: "21598589383955 / 2 ^ 44 \<le> r ^ 4"
    using sq_lower [OF p2, of "21598589383955 / 2 ^ 44"] by simp
  have p8: "828668801803 / 2 ^ 39 \<le> r ^ 8"
    using sq_lower [OF p4, of "828668801803 / 2 ^ 39"] by simp
  have p16: "19985367051605 / 2 ^ 43 \<le> r ^ 16"
    using sq_lower [OF p8, of "19985367051605 / 2 ^ 43"] by simp
  have p32: "22704108243225 / 2 ^ 42 \<le> r ^ 32"
    using sq_lower [OF p16, of "22704108243225 / 2 ^ 42"] by simp
  have p64: "14650724185687 / 2 ^ 39 \<le> r ^ 64"
    using sq_lower [OF p32, of "14650724185687 / 2 ^ 39"] by simp
  have p128: "24402165668683 / 2 ^ 35 \<le> r ^ 128"
    using sq_lower [OF p64, of "24402165668683 / 2 ^ 35"] by simp
  have p256: "33848305595361 / 2 ^ 26 \<le> r ^ 256"
    using sq_lower [OF p128, of "33848305595361 / 2 ^ 26"] by simp
  have p512: "4070371743399 / 2 ^ 4 \<le> r ^ 512"
    using sq_lower [OF p256, of "4070371743399 / 2 ^ 4"] by simp
  have p1024: "7534220517055 * 2 ^ 33 \<le> r ^ 1024"
    using sq_lower [OF p512, of "7534220517055 * 2 ^ 33"] by simp
  have p2048: "12906748179287 * 2 ^ 108 \<le> r ^ 2048"
    using sq_lower [OF p1024, of "12906748179287 * 2 ^ 108"] by simp
  have p4096: "18938425064735 * 2 ^ 259 \<le> r ^ 4096"
    using sq_lower [OF p2048, of "18938425064735 * 2 ^ 259"] by simp
  have p8192: "20387684795229 * 2 ^ 562 \<le> r ^ 8192"
    using sq_lower [OF p4096, of "20387684795229 * 2 ^ 562"] by simp
  have q12288: "10973924439039 * 2 ^ 866 \<le> r ^ 12288"
    using mul_lower [OF p8192 p4096, of "10973924439039 * 2 ^ 866"] by simp
  have q13312: "18799247905285 * 2 ^ 941 \<le> r ^ 13312"
    using mul_lower [OF q12288 p1024, of "18799247905285 * 2 ^ 941"] by simp
  have q13824: "34797234307381 * 2 ^ 978 \<le> r ^ 13824"
    using mul_lower [OF q13312 p512, of "34797234307381 * 2 ^ 978"] by simp
  have q13832: "26225627570561 * 2 ^ 979 \<le> r ^ 13832"
    using mul_lower [OF q13824 p8, of "26225627570561 * 2 ^ 979"] by simp
  have q13836: "32198190708247 * 2 ^ 979 \<le> r ^ 13836"
    using mul_lower [OF q13832 p4, of "32198190708247 * 2 ^ 979"] by simp
  have q13838: "1114895800147 * 2 ^ 984 \<le> r ^ 13838"
    using mul_lower [OF q13836 p2, of "1114895800147 * 2 ^ 984"] by simp
  show ?thesis by (rule q13838)
qed

lemma pow_13837_upper:
  fixes r :: real
  assumes r0: "0 \<le> r" and r1: "r ^ 1 \<le> 20 / 19"
  shows "r ^ 13837 \<le> 8473208086135 * 2 ^ 981"
proof -
  have p2: "r ^ 2 \<le> 19492726919021 / 2 ^ 44"
    using sq_upper [OF r1 r0, of "19492726919021 / 2 ^ 44"] by simp
  have p4: "r ^ 4 \<le> 10799294691979 / 2 ^ 43"
    using sq_upper [OF p2 r0, of "10799294691979 / 2 ^ 43"] by simp
  have p8: "r ^ 8 \<le> 3314675207213 / 2 ^ 41"
    using sq_upper [OF p4 r0, of "3314675207213 / 2 ^ 41"] by simp
  have p16: "r ^ 16 \<le> 9992683525809 / 2 ^ 42"
    using sq_upper [OF p8 r0, of "9992683525809 / 2 ^ 42"] by simp
  have p32: "r ^ 32 \<le> 22704108243255 / 2 ^ 42"
    using sq_upper [OF p16 r0, of "22704108243255 / 2 ^ 42"] by simp
  have p64: "r ^ 64 \<le> 29301448371453 / 2 ^ 40"
    using sq_upper [OF p32 r0, of "29301448371453 / 2 ^ 40"] by simp
  have p128: "r ^ 128 \<le> 1525135354301 / 2 ^ 31"
    using sq_upper [OF p64 r0, of "1525135354301 / 2 ^ 31"] by simp
  have p256: "r ^ 256 \<le> 33848305595731 / 2 ^ 26"
    using sq_upper [OF p128 r0, of "33848305595731 / 2 ^ 26"] by simp
  have p512: "r ^ 512 \<le> 15899889623 * 2 ^ 4"
    using sq_upper [OF p256 r0, of "15899889623 * 2 ^ 4"] by simp
  have p1024: "r ^ 1024 \<le> 30136882069539 * 2 ^ 31"
    using sq_upper [OF p512 r0, of "30136882069539 * 2 ^ 31"] by simp
  have p2048: "r ^ 2048 \<le> 25813496360835 * 2 ^ 107"
    using sq_upper [OF p1024 r0, of "25813496360835 * 2 ^ 107"] by simp
  have p4096: "r ^ 4096 \<le> 9469212534027 * 2 ^ 260"
    using sq_upper [OF p2048 r0, of "9469212534027 * 2 ^ 260"] by simp
  have p8192: "r ^ 8192 \<le> 2548460600297 * 2 ^ 565"
    using sq_upper [OF p4096 r0, of "2548460600297 * 2 ^ 565"] by simp
  have q12288: "r ^ 12288 \<le> 21947848889619 * 2 ^ 865"
    using mul_upper [OF p8192 p4096 r0, of "21947848889619 * 2 ^ 865"] by simp
  have q13312: "r ^ 13312 \<le> 9399623957997 * 2 ^ 942"
    using mul_upper [OF q12288 p1024 r0, of "9399623957997 * 2 ^ 942"] by simp
  have q13824: "r ^ 13824 \<le> 17398617163983 * 2 ^ 979"
    using mul_upper [OF q13312 p512 r0, of "17398617163983 * 2 ^ 979"] by simp
  have q13832: "r ^ 13832 \<le> 26225627586085 * 2 ^ 979"
    using mul_upper [OF q13824 p8 r0, of "26225627586085 * 2 ^ 979"] by simp
  have q13836: "r ^ 13836 \<le> 2012386920457 * 2 ^ 983"
    using mul_upper [OF q13832 p4 r0, of "2012386920457 * 2 ^ 983"] by simp
  have q13837: "r ^ 13837 \<le> 8473208086135 * 2 ^ 981"
    using mul_upper [OF q13836 r1 r0, of "8473208086135 * 2 ^ 981"] by simp
  show ?thesis by (rule q13837)
qed


lemma overflow_threshold:
  "(2 ^ 1024 \<le> power_int (0.95::real) d) = (d \<le> - 13838)"
proof -
  define r :: real where "r = 20 / 19"
  have r1: "r ^ 1 = 20 / 19" by (simp add: r_def)
  have rge: "1 \<le> r" by (simp add: r_def)
  have lo: "2 ^ 1024 \<le> r ^ 13838"
  proof -
    have "(2::real) ^ 1024 \<le> 1114895800147 * 2 ^ 984" by simp
    also have "\<dots> \<le> r ^ 13838" by (rule pow_13838_lower) (simp add: r_def)
    finally show ?thesis .
  qed
  have up: "r ^ 13837 < 2 ^ 1024"
  proof -
    have "r ^ 13837 \<le> 8473208086135 * 2 ^ 981"
      by (rule pow_13837_upper) (simp_all add: r_def)
    also have "\<dots> < (2::real) ^ 1024" by simp
    finally show ?thesis .
  qed
  have inv: "inverse (0.95::real) = r" by (simp add: r_def)
  show ?thesis
  proof (cases "0 \<le> d")
    case True
    have "power_int (0.95::real) d = 0.95 ^ nat d" using True by (simp add: power_int_def)
    also have "\<dots> \<le> 1" by (rule power_le_one) simp_all
    also have "(1::real) < 2 ^ 1024" by simp
    finally show ?thesis using True by simp
  next
    case False
    have eq: "power_int (0.95::real) d = r ^ nat (- d)"
      using False by (simp only: power_int_def inv if_False)
    show ?thesis
    proof (cases "d \<le> - 13838")
      case True
      have "13838 \<le> nat (- d)" using True by simp
      then have "r ^ 13838 \<le> r ^ nat (- d)" using rge by (rule power_increasing)
      with lo eq True show ?thesis by simp
    next
      case no: False
      have "nat (- d) \<le> 13837" using no by simp
      then have "r ^ nat (- d) \<le> r ^ 13837" using rge by (rule power_increasing)
      with up eq no show ?thesis by simp
    qed
  qed
qed

text \<open>The power overflows exactly for a timestamp 13838 days or more ahead of the clock.\<close>

lemma float_pow_095:
  "float_pow 0.95 d =
     (if d \<le> - 13838 then Inl (OverflowError ''Numerical result out of range'')
      else Inr (power_int 0.95 d))"
  by (simp only: float_pow_def overflow_threshold)

lemma recency_text:
  "calculate_recency_score now (TimeText (Aware t)) =
     (if (now - t) div 86400 \<le> - 13838 then 0.5 else spec_recency ((now - t) div 86400))"
  "calculate_recency_score now (TimeText (Naive t)) = 0.5"
  "calculate_recency_score now (TimeText Malformed) = 0.5"
  by (simp_all only: calculate_recency_score_def replace_z_def days_between_def float_pow_095
      spec_recency_def pytime.case tstamp.case sum.case if_distrib [of "case_sum _ _"])
     simp_all

lemma recency_datetime: "calculate_recency_score now (DateTime t) = 0.5"
  by (simp add: calculate_recency_score_def replace_z_def)

lemma relevance_doc:
  "calculate_relevance_score now (Doc h) =
     Inr (spec_relevance (opt0 (h_psp_influence_weight h)) (opt0 (h_attention_weight h))
            (opt0 (h_quality_score h)) (calculate_recency_score now (TimeText (h_timestamp h))) 1)"
  by (simp add: calculate_relevance_score_def times_def get_psp_influence_weight_def
      get_attention_weight_def get_quality_score_def get_timestamp_def spec_relevance_def)

lemma relevance_row:
  "calculate_relevance_score now (Row r) =
     (case (c_psp_influence_weight r, c_attention_weight r, c_quality_score r) of
        (Some influence, Some attention, Some quality) \<Rightarrow>
          Inr (spec_relevance influence attention quality 0.5 1)
      | _ \<Rightarrow> Inl (TypeError ''unsupported operand type(s) for *: NoneType and float''))"
  by (simp add: calculate_relevance_score_def times_def get_psp_influence_weight_def
      get_attention_weight_def get_quality_score_def get_timestamp_def spec_relevance_def
      recency_datetime split: option.splits)

text \<open>
  Claim C8, as the code has it. For a document of the hot or of the cold tier the fused score
  is the weighted sum of the specification with the source preference fixed at 1: the last
  summand is the constant 0.10, and no per-user lookup takes part; a weight the document does
  not have counts 0. Recency is \<open>max(0.1, 0.95^age_days)\<close> for a timestamp text that parses to
  an instant with a UTC offset and lies less than 13838 days ahead of the clock, and 0.5
  whenever computing it raises: for a text that does not parse or carries no offset, for a
  timestamp so far ahead that the power overflows, and for the \<^verbatim>\<open>datetime\<close> of a warm row.
  For a warm row whose three weights are numbers the score is the same sum, with recency 0.5;
  a warm row with a \<^verbatim>\<open>NULL\<close> weight has no score: the multiplication raises \<^verbatim>\<open>TypeError\<close>.
\<close>

theorem relevance_score_formula:
  "calculate_relevance_score now (Doc h) =
     Inr (spec_relevance (opt0 (h_psp_influence_weight h)) (opt0 (h_attention_weight h))
            (opt0 (h_quality_score h)) (calculate_recency_score now (TimeText (h_timestamp h))) 1)
   \<and> calculate_relevance_score now (Row r) =
       (case (c_psp_influence_weight r, c_attention_weight r, c_quality_score r) of
          (Some influence, Some attention, Some quality) \<Rightarrow>
            Inr (spec_relevance influence attention quality 0.5 1)
        | _ \<Rightarrow> Inl (TypeError ''unsupported operand type(s) for *: NoneType and float''))
   \<and> calculate_recency_score now (TimeText (Aware t)) =
       (if (now - t) div 86400 \<le> - 13838 then 0.5 else spec_recency ((now - t) div 86400))
   \<and> calculate_recency_score now (TimeText (Naive t)) = 0.5
   \<and> calculate_recency_score now (TimeText Malformed) = 0.5
   \<and> calculate_recency_score now (DateTime t') = 0.5"
  by (intro conjI relevance_doc relevance_row recency_text recency_datetime)

text \<open>
  The claim as stated fails: for a record with all three weights 0.5, stored now, and a user
  without a stored source preference (default 0.5), the specification's formula gives 0.575
  and the code gives 0.625.
\<close>

theorem relevance_source_pref_counterexample:
  "calculate_relevance_score 0 (Doc sample_doc) = Inr 0.625
   \<and> spec_relevance 0.5 0.5 0.5 (spec_recency 0) (spec_source_pref Map.empty ''user_123'') = 0.575"
proof -
  have "calculate_recency_score 0 (TimeText (Aware 0)) = 1"
    by (simp add: recency_text spec_recency_def)
  then show ?thesis
    by (simp add: relevance_doc sample_doc_def opt0_def spec_relevance_def spec_recency_def
        spec_source_pref_def)
qed

text \<open>
  What the exceptions do to a score: a document dated 14000 days ahead has recency 0.5, not
  the large power; a warm row has recency 0.5 whatever its age; a warm row without a stored
  influence has no score.
\<close>

lemma relevance_far_ahead:
  "calculate_recency_score 0 (TimeText (Aware (14000 * 86400))) = 0.5"
  by (simp add: recency_text)

lemma relevance_warm_row:
  "calculate_relevance_score 864000 (Row warm_row) = Inr 0.61
   \<and> calculate_relevance_score 864000 (Row (sample_row ''h1'' ''alice'' None))
       = Inl (TypeError ''unsupported operand type(s) for *: NoneType and float'')"
  by (simp add: relevance_row warm_row_def sample_row_def spec_relevance_def)

subsection \<open>Authorization of hard deletes\<close>

lemma risk_step_batch_mono: "fst sf \<le> fst (risk_step_batch n sf)"
  by (simp add: risk_step_batch_def)

lemma risk_step_hours_mono: "fst sf \<le> fst (risk_step_hours now sf)"
  by (simp add: risk_step_hours_def)

lemma risk_step_user_mono: "fst sf \<le> fst (risk_step_user op prof sf)"
  by (simp add: risk_step_user_def)

lemma risk_step_sources_mono: "fst sf \<le> fst (risk_step_sources od prof sf)"
  by (simp add: risk_step_sources_def split: option.splits)

lemma risk_step_hard_delete:
  "soft_delete od = Some False \<Longrightarrow> fst sf + 0.3 \<le> fst (risk_step_delete ''delete'' od n sf)"
  by (simp add: risk_step_delete_def Let_def)

lemma hard_delete_score:
  assumes "soft_delete od = Some False"
  shows "1.1 \<le> fst (risk_step_sources od prof (risk_step_user ''delete'' prof
            (risk_step_hours now (risk_step_delete ''delete'' od n
              (risk_step_batch n (0.0 + 0.8, []))))))"
proof -
  let ?b = "risk_step_batch n (0.0 + 0.8, [])"
  let ?d = "risk_step_delete ''delete'' od n ?b"
  let ?h = "risk_step_hours now ?d"
  let ?u = "risk_step_user ''delete'' prof ?h"
  have "(0.8::real) \<le> fst ?b" using risk_step_batch_mono [of "(0.0 + 0.8, [])" n] by simp
  moreover have "fst ?b + 0.3 \<le> fst ?d" using assms by (rule risk_step_hard_delete)
  moreover have "fst ?d \<le> fst ?h" by (rule risk_step_hours_mono)
  moreover have "fst ?h \<le> fst ?u" by (rule risk_step_user_mono)
  moreover have "fst ?u \<le> fst (risk_step_sources od prof ?u)" by (rule risk_step_sources_mono)
  ultimately show ?thesis by linarith
qed

lemma hard_delete_is_critical:
  assumes "soft_delete od = Some False"
  shows "fst (assess_operation_risk now ''delete'' od prof) = CRITICAL"
proof -
  have "operation_risks ''delete'' = Some 0.8" by (simp add: operation_risks_def)
  then show ?thesis
    using hard_delete_score [OF assms, of prof now "affected_count_of od"]
    by (simp add: assess_operation_risk_def Let_def risk_level_of_def)
qed

lemma limits_granted_critical:
  assumes "validate_limits_and_risk ps now u op od sid prof = (True, r, fl)"
      and "fst (assess_operation_risk now op od prof) = CRITICAL"
  shows "permission_level prof = ADMIN
       \<and> (require_2fa prof \<longrightarrow> verify_2fa_for_operation ps u sid)"
  using assms
  by (auto simp add: validate_limits_and_risk_def split: if_splits prod.splits)

lemma validate_granted_limits:
  assumes "validate_write_permission ps now u op od sid = Inr (True, r, fl)"
  shows "\<exists>prof. get_user_permission_profile ps u now = Inr prof
           \<and> validate_limits_and_risk ps now u op od sid prof = (True, r, fl)"
  using assms
  by (auto simp add: validate_write_permission_def Let_def
      split: if_splits sum.splits option.splits)

text \<open>A user without a profile is not authorized: making the default profile raises.\<close>

lemma no_profile_raises:
  assumes "profiles ps u = None"
  shows "\<exists>e. validate_write_permission ps now u op od sid = Inl e"
  using assms
  by (simp add: validate_write_permission_def get_user_permission_profile_def
      create_default_permission_profile_def Let_def)

text \<open>
  Claim C3, as the code has it. A delete with \<open>soft = false\<close> is always assessed critical, and
  it is authorized only for an operator whose level is admin and, when the operator's
  profile demands 2FA (\<open>require_2fa\<close>), only with a 2FA verification on the session. An admin
  whose profile does not demand 2FA is authorized without one.
\<close>

theorem hard_delete_requires_admin_and_demanded_2fa:
  assumes "soft_delete od = Some False"
      and "validate_write_permission ps now u ''delete'' od sid = Inr (True, r, fl)"
  shows "\<exists>prof. get_user_permission_profile ps u now = Inr prof
           \<and> fst (assess_operation_risk now ''delete'' od prof) = CRITICAL
           \<and> permission_level prof = ADMIN
           \<and> (require_2fa prof \<longrightarrow> verify_2fa_for_operation ps u sid)"
proof -
  from validate_granted_limits [OF assms(2)] obtain prof where
    prof: "get_user_permission_profile ps u now = Inr prof" and
    lim: "validate_limits_and_risk ps now u ''delete'' od sid prof = (True, r, fl)"
    by blast
  have crit: "fst (assess_operation_risk now ''delete'' od prof) = CRITICAL"
    using assms(1) by (rule hard_delete_is_critical)
  from limits_granted_critical [OF lim crit] crit prof show ?thesis by simp
qed

lemmas permission_eval =
  validate_write_permission_def validate_limits_and_risk_def get_user_permission_profile_def
  admin_store_def admin_profile_def hard_delete_data_def instant_of_def replace_z_def
  get_daily_operation_count_def affected_count_of_def assess_operation_risk_def
  operation_risks_def risk_step_batch_def risk_step_delete_def risk_step_hours_def
  risk_step_user_def risk_step_sources_def risk_level_of_def hour_of_def
  verify_2fa_for_operation_def Let_def

theorem hard_delete_requires_admin_and_demanded_2fa_witness:
  "validate_write_permission (admin_store True [''s1'' \<mapsto> ''1'']) 43200 ''root'' ''delete''
       hard_delete_data (Some ''s1'') = Inr (True, PermissionGranted, [''hard_delete''])
   \<and> get_user_permission_profile (admin_store True [''s1'' \<mapsto> ''1'']) ''root'' 43200
        = Inr (admin_profile True)
   \<and> fst (assess_operation_risk 43200 ''delete'' hard_delete_data (admin_profile True)) = CRITICAL
   \<and> permission_level (admin_profile True) = ADMIN
   \<and> require_2fa (admin_profile True)
   \<and> verify_2fa_for_operation (admin_store True [''s1'' \<mapsto> ''1'']) ''root'' (Some ''s1'')"
proof -
  have sd: "soft_delete hard_delete_data = Some False"
    by (simp add: hard_delete_data_def)
  have granted: "validate_write_permission (admin_store True [''s1'' \<mapsto> ''1'']) 43200
      ''root'' ''delete'' hard_delete_data (Some ''s1'')
        = Inr (True, PermissionGranted, [''hard_delete''])"
    by (simp add: permission_eval)
  have prof: "get_user_permission_profile (admin_store True [''s1'' \<mapsto> ''1'']) ''root'' 43200
        = Inr (admin_profile True)"
    by (simp add: get_user_permission_profile_def admin_store_def)
  have req: "require_2fa (admin_profile True)"
    by (simp add: admin_profile_def)
  from hard_delete_requires_admin_and_demanded_2fa [OF sd granted] prof req granted
  show ?thesis by auto
qed

text \<open>
  The claim as stated fails: an admin whose profile does not demand 2FA, on a session without
  any 2FA verification, is granted a hard delete that is assessed critical.
\<close>

theorem admin_without_2fa_counterexample:
  "validate_write_permission (admin_store False Map.empty) 43200 ''root'' ''delete''
       hard_delete_data None = Inr (True, PermissionGranted, [''hard_delete''])
   \<and> fst (assess_operation_risk 43200 ''delete'' hard_delete_data (admin_profile False)) = CRITICAL
   \<and> permission_level (admin_profile False) = ADMIN
   \<and> \<not> verify_2fa_for_operation (admin_store False Map.empty) ''root'' None"
  by (simp add: permission_eval)

subsection \<open>Intent-to-profile matcher\<close>

lemma determine_update_action_cases:
  "(determine_update_action s = STRENGTHEN) = (s > 0.9)"
  "(determine_update_action s = UPDATE) = (0.8 < s \<and> s \<le> 0.9)"
  "(determine_update_action s = MERGE) = (0.7 < s \<and> s \<le> 0.8)"
  "(determine_update_action s = CREATE) = (s \<le> 0.7)"
  by (auto simp add: determine_update_action_def)

text \<open>
  A match is a component of the memory layer of the intent's kind, and its similarity is
  above the threshold.
\<close>

lemma find_best_loop_sound:
  assumes "find_best_loop thr emb mem best bs = Inr (Some (c, s))"
      and "best = None \<or> (\<exists>c0 s0. best = Some (c0, s0) \<and> c0 \<in> snd ` set all \<and> s0 > thr)"
      and "set mem \<subseteq> set all"
  shows "c \<in> snd ` set all \<and> s > thr"
  using assms
proof (induction mem arbitrary: best bs)
  case Nil
  then show ?case by auto
next
  case (Cons kc mem)
  obtain cid comp where kc: "kc = (cid, comp)" by (cases kc)
  have inall: "comp \<in> snd ` set all" using Cons.prems(3) kc by force
  have sub: "set mem \<subseteq> set all" using Cons.prems(3) by simp
  show ?case
  proof (cases "embedding comp = []")
    case True
    with Cons.prems(1) kc have "find_best_loop thr emb mem best bs = Inr (Some (c, s))" by simp
    from Cons.IH [OF this Cons.prems(2) sub] show ?thesis .
  next
    case False
    show ?thesis
    proof (cases "calculate_similarity emb (embedding comp)")
      case (Inl e)
      with Cons.prems(1) kc False show ?thesis by simp
    next
      case (Inr sim)
      show ?thesis
      proof (cases "sim > bs \<and> sim > thr")
        case True
        with Cons.prems(1) kc False Inr
        have "find_best_loop thr emb mem (Some (comp, sim)) sim = Inr (Some (c, s))" by simp
        moreover have "Some (comp, sim) = None
            \<or> (\<exists>c0 s0. Some (comp, sim) = Some (c0, s0) \<and> c0 \<in> snd ` set all \<and> s0 > thr)"
          using True inall by simp
        ultimately show ?thesis using Cons.IH sub by blast
      next
        case nb: False
        with Cons.prems(1) kc False Inr
        have "find_best_loop thr emb mem best bs = Inr (Some (c, s))" by auto
        from Cons.IH [OF this Cons.prems(2) sub] show ?thesis .
      qed
    qed
  qed
qed

lemma find_best_component_match_sound:
  assumes "find_best_component_match thr intent psp = Inr (Some (c, s))"
  shows "c \<in> snd ` set (get_target_memory (intent_type intent) psp) \<and> s > thr"
proof -
  from assms have "find_best_loop thr (intent_embedding intent)
          (get_target_memory (intent_type intent) psp) None 0.0 = Inr (Some (c, s))"
    by (auto simp add: find_best_component_match_def split: if_splits)
  from find_best_loop_sound [OF this, of "get_target_memory (intent_type intent) psp"]
  show ?thesis by simp
qed

text \<open>
  Claim C6 at a failing input. The profile holds a single component, of kind
  \<open>PERSONAL_VALUE\<close>; the intent is of kind \<open>CORE_INTEREST\<close> with the same embedding. The matcher
  searches the memory layer of the intent's kind, which holds both kinds: it returns the
  personal value with similarity 1 and the action \<open>STRENGTHEN\<close>, where a search among the
  components of the intent's kind finds nothing and the action is \<open>CREATE\<close>.
\<close>

theorem match_crosses_kinds_in_a_layer:
  "match_intent_with_psp default_similarity_threshold interest_intent value_only_psp
     = Inr \<lparr> match_intent = interest_intent, match_psp_component = Some value_component,
             match_similarity = 1, match_action = STRENGTHEN, match_merge_strength = 1 \<rparr>
   \<and> component_type value_component = PERSONAL_VALUE
   \<and> intent_type interest_intent = CORE_INTEREST
   \<and> filter (\<lambda>(cid, c). component_type c = intent_type interest_intent)
        (core_memory value_only_psp @ working_memory value_only_psp
          @ learning_memory value_only_psp @ context_memory value_only_psp) = []"
  by (simp add: match_intent_with_psp_def find_best_component_match_def get_target_memory_def
      calculate_similarity_def cosine_similarity_def l2_normalize_def dot_def
      determine_update_action_def calculate_merge_strength_def default_similarity_threshold_def
      interest_intent_def value_only_psp_def value_component_def Let_def)

subsection \<open>Tiered store: retrieval by id\<close>

lemmas store_eval =
  store_hinata_def determine_storage_tier_def replace_z_def days_between_def opt0_def
  hot_store_hinata_def warm_store_hinata_def cold_store_hinata_def cold_shard_def put_doc_def
  date_prefix_def zadd_def empty_system_def sample_doc_def Let_def

lemmas retrieve_eval =
  retrieve_hinata_def cache_lookup_def cache_key_def probe_tiers_def hot_get_hinata_def
  warm_get_hinata_def cold_get_hinata_def

text \<open>
  With nothing cached, a record of the hot tier or of the warm tier is returned to whoever
  asks for its id: the user id of the request takes no part in the answer.
\<close>

lemma retrieve_hot_any_user:
  assumes "cache sys = Map.empty" "redis_full sys i = Some (Gzipped h)"
  shows "fst (retrieve_hinata sys now i u) = Some (Doc h)"
  using assms by (simp add: retrieve_eval)

lemma retrieve_warm_any_user:
  assumes "cache sys = Map.empty" "redis_full sys i = None"
      and "find (\<lambda>r. c_id r = i) (tbl_hinata_data sys) = Some r"
  shows "fst (retrieve_hinata sys now i u) = Some (Row r)"
  using assms by (simp add: retrieve_eval)

text \<open>
  The engine cannot fill the warm tier itself: a record that belongs there is refused by the
  driver, the exception leaves \<^verbatim>\<open>store_hinata\<close>, and nothing is stored.
\<close>

lemma store_warm_raises:
  "store_hinata empty_system 864000 sample_doc ''alice''
     = (Some (DataError ''invalid input for query argument $3: expected a datetime instance, got str''),
        empty_system)"
  by (simp add: store_eval)

text \<open>
  Claim C1 at a failing input. Alice stores the record \<open>h1\<close> on the day of its creation,
  which places it in the hot tier; bob asks for \<open>h1\<close> and gets the document. From an
  installation whose warm tier holds alice's row \<open>h1\<close> bob gets the row, whose \<open>user_id\<close> is
  alice. Only the cold tier (influence 0.2, stored forty days after creation) is searched
  under the asking user's directory: there bob gets nothing and alice gets the record.
\<close>

theorem retrieve_returns_other_users_record:
  "fst (retrieve_hinata (snd (store_hinata empty_system 0 sample_doc ''alice'')) 0 ''h1'' ''bob'')
     = Some (Doc sample_doc)
   \<and> fst (retrieve_hinata warm_system 864000 ''h1'' ''bob'') = Some (Row warm_row)
   \<and> c_user_id warm_row = ''alice''
   \<and> fst (retrieve_hinata (snd (store_hinata empty_system 3456000 cold_doc ''alice'')) 3456000
          ''h1'' ''bob'') = None
   \<and> fst (retrieve_hinata (snd (store_hinata empty_system 3456000 cold_doc ''alice'')) 3456000
          ''h1'' ''alice'') = Some (Doc cold_doc)"
  by (simp add: store_eval retrieve_eval cold_doc_def warm_system_def warm_row_def
      sample_row_def)

text \<open>
  Claim C2 at a failing input. Alice's warm record \<open>h1\<close> is soft-deleted, and the soft delete
  succeeds. The row is retained and marked, as the claim says; but a lookup by id still
  returns it: \<^verbatim>\<open>retrieve_hinata\<close> does not read \<^verbatim>\<open>is_deleted\<close>.
\<close>

theorem soft_deleted_record_still_retrieved:
  "soft_delete_hinata warm_system 864000 ''h1''
     = (True, warm_system \<lparr> tbl_hinata_data := [deleted_row] \<rparr>)
   \<and> c_is_deleted deleted_row
   \<and> fst (retrieve_hinata (warm_system \<lparr> tbl_hinata_data := [deleted_row] \<rparr>) 864000 ''h1''
          ''alice'') = Some (Row deleted_row)"
  by (simp add: warm_system_def soft_delete_hinata_def retrieve_eval deleted_row_def
      warm_row_def sample_row_def empty_system_def)

text \<open>
  The index query of the search does not read \<^verbatim>\<open>is_deleted\<close> either: the deleted record is
  still a candidate of the high-influence strategy and is fetched. It is not listed, for a
  reason that has nothing to do with its deletion: a warm row that passes the relevance
  threshold makes \<^verbatim>\<open>_determine_storage_tier\<close> raise on the row's \<^verbatim>\<open>datetime\<close>, and the search
  ends with that exception.
\<close>

lemma soft_deleted_record_still_a_candidate:
  "warm_query_high_weight (warm_system \<lparr> tbl_hinata_data := [deleted_row] \<rparr>) ''alice'' 0.7 15
     = [''h1'']
   \<and> fst (multi_strategy_search (warm_system \<lparr> tbl_hinata_data := [deleted_row] \<rparr>) 864000
          [] [] alice_query)
     = Inl (TypeError ''str object cannot be interpreted as an integer'')"
  by (simp add: warm_system_def multi_strategy_search_def warm_query_high_weight_def
      alice_query_def retrieve_eval deleted_row_def warm_row_def sample_row_def
      warm_index_row_def empty_system_def relevance_row spec_relevance_def
      get_psp_influence_weight_def get_timestamp_def determine_storage_tier_def replace_z_def
      Let_def)

subsection \<open>Ingestion: enrichment failures\<close>

lemma process_single_enrichment_failure:
  assumes "validate d = (True, errs)" "standardize d = Inr d'" "hinata_of_dict d' = Inr h"
      and "enhance_hinata pl h = Inl e"
  shows "process_single_hinata sys now pl d u = (Inl e, sys)"
  using assms by (simp add: process_single_hinata_def)

lemma batch_cons:
  "process_hinata_batch sys now pl (d # ds) u =
     ((case fst (process_single_hinata sys now pl d u) of
         Inr result \<Rightarrow> result | Inl e \<Rightarrow> failed_result d e)
        # fst (process_hinata_batch (snd (process_single_hinata sys now pl d u)) now pl ds u),
      snd (process_hinata_batch (snd (process_single_hinata sys now pl d u)) now pl ds u))"
  by (simp split: prod.splits sum.splits)

lemma batch_append:
  "process_hinata_batch sys now pl (xs @ ys) u =
     (fst (process_hinata_batch sys now pl xs u)
        @ fst (process_hinata_batch (snd (process_hinata_batch sys now pl xs u)) now pl ys u),
      snd (process_hinata_batch (snd (process_hinata_batch sys now pl xs u)) now pl ys u))"
proof (induction xs arbitrary: sys)
  case Nil
  then show ?case by simp
next
  case (Cons x xs)
  show ?case
    by (simp only: append_Cons batch_cons Cons.IH fst_conv snd_conv)
qed

text \<open>Every record of a batch gets a result.\<close>

lemma batch_length: "length (fst (process_hinata_batch sys now pl xs u)) = length xs"
proof (induction xs arbitrary: sys)
  case Nil
  then show ?case by simp
next
  case (Cons x xs)
  show ?case
    by (simp only: batch_cons Cons.IH fst_conv list.size)
qed

text \<open>An enrichment fails exactly when one of its four stages raises.\<close>

lemma enhance_hinata_failure:
  "enhance_hinata pl h = Inl e \<longleftrightarrow>
     generate_semantic_tags pl h = Inl e
   \<or> (\<exists>tags. generate_semantic_tags pl h = Inr tags
        \<and> extract_recommended_highlights pl (h \<lparr> h_enhanced_tags := Some tags \<rparr>) = Inl e)
   \<or> (\<exists>tags hls. generate_semantic_tags pl h = Inr tags
        \<and> extract_recommended_highlights pl (h \<lparr> h_enhanced_tags := Some tags \<rparr>) = Inr hls
        \<and> analyze_semantics pl (h \<lparr> h_enhanced_tags := Some tags,
                                     h_recommended_highlights := Some hls \<rparr>) = Inl e)
   \<or> (\<exists>tags hls sem. generate_semantic_tags pl h = Inr tags
        \<and> extract_recommended_highlights pl (h \<lparr> h_enhanced_tags := Some tags \<rparr>) = Inr hls
        \<and> analyze_semantics pl (h \<lparr> h_enhanced_tags := Some tags,
                                     h_recommended_highlights := Some hls \<rparr>) = Inr sem
        \<and> generate_embedding pl (h \<lparr> h_enhanced_tags := Some tags,
                                     h_recommended_highlights := Some hls,
                                     h_semantic_analysis := Some sem \<rparr>) = Inl e)"
  by (auto simp add: enhance_hinata_def Let_def split: sum.splits)

text \<open>
  Claim C7, as the code has it. When the enrichment of a valid record raises, the record is
  not ingested: its result is \<open>FAILED\<close> and carries the exception, the stores end as if the
  record had not been in the batch (nothing of it is stored, and no processing metadata is
  written), and the batch goes on with the records after it.
\<close>

theorem enrichment_failure_fails_the_record_only:
  assumes "validate d = (True, errs)" "standardize d = Inr d'" "hinata_of_dict d' = Inr h"
      and "enhance_hinata pl h = Inl e"
  shows "fst (process_hinata_batch sys now pl (pre @ d # post) u) =
           fst (process_hinata_batch sys now pl pre u) @ failed_result d e
             # fst (process_hinata_batch (snd (process_hinata_batch sys now pl pre u)) now pl post u)
       \<and> snd (process_hinata_batch sys now pl (pre @ d # post) u)
           = snd (process_hinata_batch sys now pl (pre @ post) u)
       \<and> status (failed_result d e) = FAILED \<and> error_message (failed_result d e) = Some e"
proof -
  let ?s1 = "snd (process_hinata_batch sys now pl pre u)"
  have single: "process_single_hinata ?s1 now pl d u = (Inl e, ?s1)"
    using assms by (rule process_single_enrichment_failure)
  have head: "process_hinata_batch ?s1 now pl (d # post) u =
                (failed_result d e # fst (process_hinata_batch ?s1 now pl post u),
                 snd (process_hinata_batch ?s1 now pl post u))"
    by (simp only: batch_cons single fst_conv snd_conv sum.case)
  have "process_hinata_batch sys now pl (pre @ d # post) u =
          (fst (process_hinata_batch sys now pl pre u) @ failed_result d e
             # fst (process_hinata_batch ?s1 now pl post u),
           snd (process_hinata_batch ?s1 now pl post u))"
    by (simp only: batch_append [of sys now pl pre "d # post"] head fst_conv snd_conv)
  moreover have "snd (process_hinata_batch sys now pl (pre @ post) u)
                   = snd (process_hinata_batch ?s1 now pl post u)"
    by (simp only: batch_append [of sys now pl pre post] snd_conv)
  ultimately show ?thesis by (simp add: failed_result_def)
qed

text \<open>The sample record through validation, normalization and the two sample pipelines.\<close>

lemma strings_of_map_JStr: "strings_of (map JStr tags) = Some tags"
  by (induction tags) simp_all

lemma validate_submitted: "validate (submitted tags) = (True, [])"
  by (simp add: validate_def missing_fields_def submitted_def is_list_def ACCESS_LEVELS_def Let_def)

lemma standardize_submitted:
  "standardize (submitted tags) = Inr ((submitted (clean_tags tags)) \<lparr> d_raw_data := Some [] \<rparr>)"
  by (simp add: standardize_def submitted_def strings_of_map_JStr)

lemma hinata_of_dict_submitted:
  "hinata_of_dict ((submitted (clean_tags tags)) \<lparr> d_raw_data := Some [] \<rparr>) = Inr (normalized tags)"
  by (simp add: hinata_of_dict_def submitted_def normalized_def strings_of_map_JStr)

lemma enhance_failing:
  "enhance_hinata failing_pipeline (normalized tags)
     = Inl (ValueError ''embedding model unavailable'')"
  by (simp add: enhance_hinata_def extract_recommended_highlights_def failing_pipeline_def
      plain_pipeline_def normalized_def Let_def)

lemmas ingest_eval =
  score_and_store_def store_and_index_def store_in_hot_layer_def store_in_warm_layer_def
  build_indexes_def enhance_hinata_def extract_recommended_highlights_def
  calculate_quality_score_def calculate_attention_weight_def
  normalize_frequency_weight_def normalize_density_weight_def normalize_revisit_weight_def
  normalize_time_weight_def get_depth_multiplier_def calculate_psp_influence_weight_def
  get_user_historical_data_def determine_storage_tier_def replace_z_def days_between_def
  opt0_def zadd_def ENHANCEMENTS_def Let_def

lemma process_single_plain:
  "process_single_hinata empty_system 0 plain_pipeline (submitted tags) ''alice'' =
     score_and_store empty_system 0 plain_pipeline
       ((normalized tags) \<lparr> h_enhanced_tags := Some [''learning''],
                             h_recommended_highlights := Some [''note''],
                             h_semantic_analysis := Some \<lparr> main_topics = [], sentiment = ''neutral'',
                                        complexity_level = ''low'', key_concepts = [] \<rparr>,
                             h_embedding_vector := Some [0, 1] \<rparr>) ''alice''"
  by (simp add: process_single_hinata_def validate_submitted standardize_submitted
      hinata_of_dict_submitted enhance_hinata_def extract_recommended_highlights_def
      plain_pipeline_def normalized_def Let_def)

lemma process_single_failing:
  "process_single_hinata sys now failing_pipeline (submitted tags) u
     = (Inl (ValueError ''embedding model unavailable''), sys)"
  using validate_submitted standardize_submitted hinata_of_dict_submitted enhance_failing
  by (rule process_single_enrichment_failure)

lemma submitted_id: "d_id (submitted tags) = Some ''h1''"
  by (simp add: submitted_def)

text \<open>
  With a pipeline that does not raise, the sample record reaches the store: its document is
  written to the hot layer, then the index statement is refused.
\<close>

lemma process_single_plain_result:
  "fst (process_single_hinata empty_system 0 plain_pipeline (submitted tags) ''alice'')
     = Inl (DataError ''invalid input for query argument $3: an integer is required, got str'')"
  by (simp only: process_single_plain)
     (simp add: ingest_eval normalized_def empty_system_def plain_pipeline_def)

lemma process_single_plain_stored:
  "(case redis_full (snd (process_single_hinata empty_system 0 plain_pipeline (submitted tags)
        ''alice'')) ''h1'' of Some (PlainJson h) \<Rightarrow> h_tag h | _ \<Rightarrow> []) = clean_tags tags"
  by (simp only: process_single_plain)
     (simp add: ingest_eval normalized_def empty_system_def plain_pipeline_def)

theorem enrichment_failure_fails_the_record_only_witness:
  "fst (process_hinata_batch empty_system 0 failing_pipeline ([] @ submitted [''ml''] # []) ''alice'')
     = [failed_result (submitted [''ml'']) (ValueError ''embedding model unavailable'')]
   \<and> snd (process_hinata_batch empty_system 0 failing_pipeline ([] @ submitted [''ml''] # []) ''alice'')
       = empty_system
   \<and> status (failed_result (submitted [''ml'']) (ValueError ''embedding model unavailable'')) = FAILED"
  using enrichment_failure_fails_the_record_only
          [OF validate_submitted standardize_submitted hinata_of_dict_submitted enhance_failing,
           where sys = empty_system and now = 0 and pre = "[]" and post = "[]" and u = "''alice''"
             and tags1 = "[''ml'']"]
  by simp

text \<open>
  The claim as stated fails: a valid record whose embedding stage raises is answered with
  \<open>FAILED\<close> and the stores stay empty: the record is not stored, and nothing is flagged on
  it.
\<close>

theorem enrichment_failure_counterexample:
  "validate (submitted [''ml'']) = (True, [])
   \<and> process_hinata_batch empty_system 0 failing_pipeline [submitted [''ml'']] ''alice''
       = ([\<lparr> status = FAILED, processed_hinata_id = ''h1'',
             error_message = Some (ValueError ''embedding model unavailable''),
             result_enhancements = None \<rparr>], empty_system)
   \<and> redis_full empty_system ''h1'' = None \<and> tbl_hinata_data empty_system = []"
proof -
  have "redis_full empty_system ''h1'' = None \<and> tbl_hinata_data empty_system = []"
    by (simp add: empty_system_def)
  moreover have "process_hinata_batch empty_system 0 failing_pipeline [submitted [''ml'']] ''alice''
       = ([\<lparr> status = FAILED, processed_hinata_id = ''h1'',
             error_message = Some (ValueError ''embedding model unavailable''),
             result_enhancements = None \<rparr>], empty_system)"
    by (simp add: process_single_failing failed_result_def submitted_id)
  ultimately show ?thesis using validate_submitted by simp
qed

text \<open>
  No record is answered with \<open>COMPLETED\<close>, with or without an enrichment failure: the
  statements of the last step hand the record's timestamp text to the driver, which refuses
  it. What distinguishes a record whose enrichment went through is what it leaves behind: a
  record of the hot tier leaves its document in the hot layer.
\<close>

lemma store_and_index_raises: "store_and_index sys now h u \<noteq> (None, sys')"
  by (simp add: store_and_index_def store_in_warm_layer_def build_indexes_def
      split: sum.splits)

lemma score_and_store_raises: "\<exists>e. fst (score_and_store sys now pl h u) = Inl e"
  by (simp add: score_and_store_def store_and_index_raises Let_def
      split: sum.splits prod.splits option.splits)

lemma process_single_raises: "\<exists>e. fst (process_single_hinata sys now pl d u) = Inl e"
  using score_and_store_raises
  by (simp add: process_single_hinata_def split: sum.splits prod.splits bool.splits)

lemma ingestion_never_completes:
  "map status (fst (process_hinata_batch sys now pl ds u)) = replicate (length ds) FAILED"
proof (induction ds arbitrary: sys)
  case Nil
  then show ?case by simp
next
  case (Cons d ds)
  from process_single_raises [of sys now pl d u] obtain e where
    e: "fst (process_single_hinata sys now pl d u) = Inl e" by blast
  have "map status (fst (process_hinata_batch sys now pl (d # ds) u))
          = status (failed_result d e)
              # map status (fst (process_hinata_batch
                                   (snd (process_single_hinata sys now pl d u)) now pl ds u))"
    by (simp only: batch_cons e sum.case fst_conv list.map)
  then show ?case
    by (simp add: Cons.IH failed_result_def del: process_hinata_batch.simps)
qed

subsection \<open>Tags after ingestion and after a bulk tag\<close>

text \<open>
  What each path does establish: the tags that normalization keeps are lowercase, trimmed
  and not empty; the tags that a bulk tag writes over two lists are free of duplicates.
\<close>

lemma lower_char_idem: "lower_char (lower_char c) = lower_char c"
  by (simp add: lower_char_def)

lemma lower_idem: "lower (lower s) = lower s"
  by (simp add: lower_def lower_char_idem)

lemma isspace_lower_char: "isspace (lower_char c) = isspace c"
  by (auto simp add: isspace_def lower_char_def)

lemma dropWhile_isspace_lower:
  "dropWhile isspace (lower s) = lower (dropWhile isspace s)"
  by (simp add: lower_def dropWhile_map comp_def isspace_lower_char)

lemma strip_lower: "strip (lower s) = lower (strip s)"
proof -
  have "rev (lower s) = lower (rev s)" for s by (simp add: lower_def rev_map)
  then show ?thesis
    by (simp add: strip_def dropWhile_isspace_lower)
qed

lemma last_dropWhile: "dropWhile P xs \<noteq> [] \<Longrightarrow> last (dropWhile P xs) = last xs"
  by (induction xs) (auto split: if_splits)

lemma dropWhile_self: "xs = [] \<or> \<not> P (hd xs) \<Longrightarrow> dropWhile P xs = xs"
  by (cases xs) auto

lemma strip_idem: "strip (strip s) = strip s"
proof -
  let ?u = "dropWhile isspace s"
  let ?w = "dropWhile isspace (rev ?u)"
  have front: "dropWhile isspace (rev ?w) = rev ?w"
  proof (cases "?w = []")
    case True
    show ?thesis unfolding True by simp
  next
    case False
    have "?u \<noteq> []"
    proof
      assume e: "?u = []"
      have "?w = []" unfolding e by simp
      with False show False by blast
    qed
    then have "\<not> isspace (hd ?u)" by (rule hd_dropWhile)
    moreover have "last ?w = last (rev ?u)" using False by (rule last_dropWhile)
    moreover have "last (rev ?u) = hd ?u" using \<open>?u \<noteq> []\<close> by (simp add: last_rev)
    moreover have "hd (rev ?w) = last ?w" using False by (simp add: hd_rev)
    ultimately have "\<not> isspace (hd (rev ?w))" by simp
    then show ?thesis by (intro dropWhile_self) simp
  qed
  have "strip (rev ?w) = rev (dropWhile isspace (rev (rev ?w)))"
    unfolding strip_def front ..
  also have "\<dots> = rev ?w" by simp
  finally show ?thesis by (simp add: strip_def)
qed

text \<open>\<^verbatim>\<open>strip\<close> after \<^verbatim>\<open>strip\<close> and \<^verbatim>\<open>lower\<close> changes nothing.\<close>

lemma clean_tags_normal:
  assumes "t \<in> set (clean_tags tags)"
  shows "lower t = t \<and> strip t = t \<and> t \<noteq> []"
proof -
  from assms obtain x where x: "t = lower (strip x)" "strip x \<noteq> []"
    by (auto simp add: clean_tags_def)
  have "lower t = t" by (simp add: x lower_idem)
  moreover have "strip t = t" by (simp add: x strip_lower strip_idem)
  moreover have "t \<noteq> []" using x by (simp add: lower_def)
  ultimately show ?thesis by simp
qed

lemma combine_tags_distinct:
  assumes "combine_tags (JArr xs) (JArr ys) = Inr (JArr zs)"
  shows "distinct zs \<and> set zs = set xs \<union> set ys"
  using assms by (auto simp add: combine_tags_def py_set_list_def split: if_splits)

lemma clean_tags_duplicate: "clean_tags [''ml'', ''ML ''] = [''ml'', ''ml'']"
  by code_simp

lemma tag_not_normal: "lower ''Python '' \<noteq> ''Python ''" "strip ''Python '' \<noteq> ''Python ''"
  by code_simp+

lemmas write_eval =
  process_write_request_def write_operation_of_def validator_validate_write_permission_def
  get_required_permission_def create_backup_def backup_key_def execute_operation_def
  handle_bulk_operation_def validate_bulk_operation_safety_def estimate_affected_count_def
  filter_is_empty_def matches_tag_source_def jsonb_exists_def
  find_hinatas_by_filter_def error_response_def ok_response_def
  two_user_system_def empty_system_def bulk_tag_request_def alice_context_def
  sample_row_def Let_def

text \<open>
  Claim C5 at two failing inputs. Ingestion lowercases and trims but does not deduplicate: the
  submitted tags \<open>ml\<close> and \<open>ML \<close> are stored as \<open>ml, ml\<close>. A bulk tag deduplicates but
  neither lowercases nor trims: the new tag \<open>Python \<close> is stored as it was given.
\<close>

theorem tags_not_normalized_after_ingestion_and_bulk_tag:
  "(case redis_full (snd (process_hinata_batch empty_system 0 plain_pipeline
              [submitted [''ml'', ''ML '']] ''alice'')) ''h1'' of
            Some (PlainJson h) \<Rightarrow> h_tag h | _ \<Rightarrow> []) = [''ml'', ''ml'']
   \<and> \<not> distinct [''ml'', ''ml'']
   \<and> map c_tags (tbl_hinata_data (snd (process_write_request two_user_system 1000 plain_pipeline
          ''new'' (bulk_tag_request 100 False ''Python '') alice_context)))
       = [JArr [JStr ''ml'', JStr ''Python ''], JArr [JStr ''ml'']]
   \<and> lower ''Python '' \<noteq> ''Python '' \<and> strip ''Python '' \<noteq> ''Python ''"
proof -
  have "(case redis_full (snd (process_hinata_batch empty_system 0 plain_pipeline
              [submitted [''ml'', ''ML '']] ''alice'')) ''h1'' of
            Some (PlainJson h) \<Rightarrow> h_tag h | _ \<Rightarrow> []) = [''ml'', ''ml'']"
    by (simp add: batch_cons process_single_plain_stored clean_tags_duplicate
        del: process_hinata_batch.simps(2))
  moreover have "map c_tags (tbl_hinata_data (snd (process_write_request two_user_system 1000
          plain_pipeline ''new'' (bulk_tag_request 100 False ''Python '') alice_context)))
       = [JArr [JStr ''ml'', JStr ''Python ''], JArr [JStr ''ml'']]"
    by (simp add: write_eval batches_of_def apply_bulk_operation_def combine_tags_def
        py_set_list_def hashable_def is_list_def update_tags_def op_success_def)
  ultimately show ?thesis using tag_not_normal by simp
qed


subsection \<open>Write executor: oversized bulk operations\<close>

lemma estimate_after_backup:
  "estimate_affected_count (create_backup sys now u opid) f u' = estimate_affected_count sys f u'"
  by (simp add: estimate_affected_count_def create_backup_def)

lemma safety_rejects:
  assumes "batch_size b > 1000 \<or> estimate_affected_count sys (bulk_target_filter b) u > 10000"
  shows "fst (validate_bulk_operation_safety sys b u) = False"
  using assms by (auto simp add: validate_bulk_operation_safety_def Let_def)

lemma bulk_rejected:
  assumes "batch_size b > 1000 \<or> estimate_affected_count sys (bulk_target_filter b) u > 10000"
  shows "handle_bulk_operation sys (Some b) u
           = (Inl (BulkSafetyCheckFailed (snd (validate_bulk_operation_safety sys b u))), sys)"
  using safety_rejects [OF assms]
  by (cases "validate_bulk_operation_safety sys b u") (simp add: handle_bulk_operation_def)

text \<open>
  Claim C4, as the code has it. A bulk operation whose batch size exceeds 1000, or whose
  estimated match count exceeds 10000, is answered with status \<open>error\<close> and no stored record
  is changed. The backup is step 2 of the request, the safety check is part of step 3: the
  snapshot is written before the rejection whenever the request asks for a backup
  (\<open>auto_backup\<close>, the default) and the permission check passed, and only then; otherwise
  the stores are left exactly as they were.
\<close>

theorem oversized_bulk_rejected_without_mutation:
  assumes "write_operation_of (req_operation_type req) = Some op"
      and "op \<in> {W_BATCH_UPDATE, W_BULK_TAG, W_BULK_RETAG}"
      and "req_bulk_operation req = Some b"
      and "batch_size b > 1000
           \<or> estimate_affected_count sys (bulk_target_filter b) (ctx_user_id ctx) > 10000"
  shows "resp_status (fst (process_write_request sys now pl nid req ctx)) = ''error''
       \<and> resp_affected_count (fst (process_write_request sys now pl nid req ctx)) = 0
       \<and> tbl_hinata_data (snd (process_write_request sys now pl nid req ctx)) = tbl_hinata_data sys
       \<and> snd (process_write_request sys now pl nid req ctx) =
           (if req_auto_backup req \<and> validator_validate_write_permission sys (req_user_id req) op
            then create_backup sys now (req_user_id req) (ctx_operation_id ctx) else sys)"
proof (cases "validator_validate_write_permission sys (req_user_id req) op")
  case False
  then show ?thesis using assms(1)
    by (simp add: process_write_request_def error_response_def)
next
  case True
  let ?sys1 = "if req_auto_backup req
               then create_backup sys now (req_user_id req) (ctx_operation_id ctx) else sys"
  have est: "batch_size b > 1000
           \<or> estimate_affected_count ?sys1 (bulk_target_filter b) (ctx_user_id ctx) > 10000"
    using assms(4) by (simp add: estimate_after_backup)
  have ex: "execute_operation ?sys1 now pl nid op req ctx
          = (Inl (BulkSafetyCheckFailed
                (snd (validate_bulk_operation_safety ?sys1 b (ctx_user_id ctx)))), ?sys1)"
    using assms(2,3) bulk_rejected [OF est]
    by (auto simp add: execute_operation_def)
  have tbl: "tbl_hinata_data ?sys1 = tbl_hinata_data sys"
    by (simp add: create_backup_def)
  show ?thesis using True assms(1) ex tbl
    by (simp add: process_write_request_def error_response_def Let_def)
qed

theorem oversized_bulk_rejected_without_mutation_witness:
  "resp_status (fst (process_write_request two_user_system 1000 plain_pipeline ''new''
       (bulk_tag_request 1001 False ''x'') alice_context)) = ''error''
   \<and> resp_affected_count (fst (process_write_request two_user_system 1000 plain_pipeline ''new''
       (bulk_tag_request 1001 False ''x'') alice_context)) = 0
   \<and> snd (process_write_request two_user_system 1000 plain_pipeline ''new''
       (bulk_tag_request 1001 False ''x'') alice_context) = two_user_system"
proof -
  have op: "write_operation_of (req_operation_type (bulk_tag_request 1001 False ''x''))
              = Some W_BULK_TAG"
    by (simp add: write_operation_of_def bulk_tag_request_def)
  have mem: "W_BULK_TAG \<in> {W_BATCH_UPDATE, W_BULK_TAG, W_BULK_RETAG}" by simp
  have b: "req_bulk_operation (bulk_tag_request 1001 False ''x'')
             = Some (the (req_bulk_operation (bulk_tag_request 1001 False ''x'')))"
    by (simp add: bulk_tag_request_def)
  have big: "batch_size (the (req_bulk_operation (bulk_tag_request 1001 False ''x''))) > 1000
     \<or> estimate_affected_count two_user_system
          (bulk_target_filter (the (req_bulk_operation (bulk_tag_request 1001 False ''x''))))
          (ctx_user_id alice_context) > 10000"
    by (simp add: bulk_tag_request_def)
  have nb: "\<not> req_auto_backup (bulk_tag_request 1001 False ''x'')"
    by (simp add: bulk_tag_request_def)
  from oversized_bulk_rejected_without_mutation
         [OF op mem b big, of 1000 plain_pipeline "''new''"] nb
  show ?thesis by simp
qed

text \<open>
  The claim as stated fails: a bulk tag of batch size 1001 with \<open>auto_backup\<close> set is
  rejected, and the rejected request has left a backup snapshot under its operation id.
\<close>

theorem oversized_bulk_backup_counterexample:
  "resp_status (fst (process_write_request two_user_system 1000 plain_pipeline ''new''
       (bulk_tag_request 1001 True ''x'') alice_context)) = ''error''
   \<and> resp_errors (fst (process_write_request two_user_system 1000 plain_pipeline ''new''
       (bulk_tag_request 1001 True ''x'') alice_context))
      = [BulkSafetyCheckFailed [BatchSizeTooLarge]]
   \<and> redis_backup two_user_system (backup_key ''alice'' ''write_1'') = None
   \<and> redis_backup (snd (process_write_request two_user_system 1000 plain_pipeline ''new''
       (bulk_tag_request 1001 True ''x'') alice_context)) (backup_key ''alice'' ''write_1'')
      = Some \<lparr> backup_user_id = ''alice'', backup_operation_id = ''write_1'', backup_time = 1000,
               backup_rows = [sample_row ''h1'' ''alice'' (Some 0.5)] \<rparr>"
  by (simp add: write_eval)


subsection \<open>Write executor: single-record update\<close>






end
